theory Spec2Isabelle
  imports Main "HOL-Library.AList" "HOL-Library.Sublist"
begin

section \<open>The ioka client: a shallow embedding of \<^verbatim>\<open>src/ioka/api.py\<close>\<close>

text \<open>
  The module is a thin client of a payment REST service. Its request records are
  pydantic (1.x) models, its HTTP calls go through \<^verbatim>\<open>requests.request\<close>. The
  embedding keeps the source's names, makes every exception a value of the sum type
  \<open>exn + 'a\<close> and threads the mutable parts of the program (the header dictionaries,
  the class attribute \<^verbatim>\<open>Order.api\<close>, the debug log and the requests sent) through
  an explicit \<open>world\<close>.
\<close>

subsection \<open>Python values\<close>

text \<open>
  \<^verbatim>\<open>datetime.datetime\<close>: the seven calendar fields and the optional time zone, kept as
  its UTC offset in microseconds.
\<close>

record datetime =
  year :: nat
  month :: nat
  day :: nat
  hour :: nat
  minute :: nat
  second :: nat
  microsecond :: nat
  tzinfo :: "int option"

text \<open>
  The dynamically typed values the client passes around: keyword values, the bodies it
  sends and the JSON it receives. A \<^verbatim>\<open>dict\<close> keeps its insertion order, so it is an
  association list.
\<close>

datatype pyval =
    PNone
  | PBool bool
  | PInt int
  | PStr string
  | PList "pyval list"
  | PDict "(string \<times> pyval) list"
  | PDatetime datetime

type_synonym pydict = "(string \<times> pyval) list"

text \<open>
  The values of a header dictionary: a pydantic \<^verbatim>\<open>SecretStr\<close> object wrapping the
  secret, or a plain \<^verbatim>\<open>str\<close>.
\<close>

datatype hval = SecretStr string | Str string

type_synonym hdict = "(string \<times> hval) list"

subsection \<open>HTTP: what \<^verbatim>\<open>requests\<close> sends and returns\<close>

text \<open>
  \<^verbatim>\<open>requests.Response\<close>: the status, the body text, and the body as
  \<^verbatim>\<open>response.json()\<close> parses it (\<open>None\<close> when the text is not JSON and the parse
  raises).
\<close>

record response =
  status_code :: int
  resp_text :: string
  json :: "pyval option"

datatype exn =
    ValidationError "string list"
  | TypeError string
  | ValueError string
  | AttributeError string
  | HTTPError response
  | JSONDecodeError
  | RequestException string

text \<open>
  A call of \<^verbatim>\<open>requests.request(method, url, headers=headers, **{params_type: params})\<close>
  as it leaves the client: the library upper-cases the verb; the body is absent when the
  client passes no parameters.
\<close>

record http_request =
  rq_verb :: string
  rq_url :: string
  rq_headers :: hdict
  rq_params :: "(string \<times> pydict) option"

text \<open>The two lines \<^verbatim>\<open>logger.debug\<close> receives, by the values the f-strings format.\<close>

record log_request =
  lg_verb :: string
  lg_url :: string
  lg_params :: "pydict option"
  lg_params_type :: string
  lg_headers :: hdict
  lg_raise_for_status :: bool

datatype log_line = LogRequest log_request | LogResponse response

text \<open>
  \<^verbatim>\<open>class Api(BaseModel)\<close>: the three configuration fields by value; \<open>headers\<close> is a
  reference to a mutable dictionary, so the record holds its address in the store.
\<close>

record Api =
  api_host :: string
  api_key :: string
  version :: string
  headers :: nat

datatype cls = Order_cls

text \<open>
  The mutable state: the store of header dictionaries, the class attribute \<^verbatim>\<open>api\<close>
  that \<^verbatim>\<open>Order.set_api\<close> assigns (unset until the first call), the debug log and the
  requests sent so far.
\<close>

record world =
  heap :: "nat \<Rightarrow> hdict"
  next_addr :: nat
  class_api :: "cls \<Rightarrow> Api option"
  debug_log :: "log_line list"
  sent :: "http_request list"

text \<open>
  The remote service and the transport are the environment: given the requests sent so
  far (the last one being the current call) it answers with a response, or the call
  raises.
\<close>

type_synonym net = "http_request list \<Rightarrow> exn + response"

datatype result = Json pyval | Raw response

text \<open>\<^verbatim>\<open>str.upper\<close> on the ASCII letters, which is all a verb holds.\<close>

definition upper_char :: "char \<Rightarrow> char" where
  "upper_char c =
     (case map_of (zip ''abcdefghijklmnopqrstuvwxyz'' ''ABCDEFGHIJKLMNOPQRSTUVWXYZ'') c of
        None \<Rightarrow> c
      | Some u \<Rightarrow> u)"

definition requests_request ::
  "net \<Rightarrow> string \<Rightarrow> string \<Rightarrow> hdict \<Rightarrow> (string \<times> pydict) option \<Rightarrow> world
    \<Rightarrow> (exn + response) \<times> world" where
  "requests_request nt meth url hdrs params w =
     (let rq = \<lparr>rq_verb = map upper_char meth, rq_url = url, rq_headers = hdrs,
                rq_params = params\<rparr>;
          w' = w\<lparr>sent := sent w @ [rq]\<rparr>
      in (nt (sent w'), w'))"

text \<open>
  \<^verbatim>\<open>Response.raise_for_status\<close> of the library raises for the client and server error
  classes, 400 to 599, and for nothing else.
\<close>

definition raise_for_status :: "response \<Rightarrow> exn + unit" where
  "raise_for_status r =
     (if 400 \<le> status_code r \<and> status_code r < 600 then Inl (HTTPError r) else Inr ())"

subsection \<open>\<^verbatim>\<open>Api._request\<close>\<close>

text \<open>
  Lines 455 to 476. \<^verbatim>\<open>headers or self.headers\<close> picks the instance's own dictionary
  when the argument is \<^verbatim>\<open>None\<close> or empty; the log line is written from that
  dictionary as it stands; then the cleartext key is stored into the same dictionary,
  which is what the call sends.
\<close>

definition headers_or :: "nat option \<Rightarrow> Api \<Rightarrow> world \<Rightarrow> nat" where
  "headers_or hdrs self w =
     (case hdrs of
        None \<Rightarrow> headers self
      | Some a \<Rightarrow> if heap w a = [] then headers self else a)"

definition Api_request ::
  "net \<Rightarrow> Api \<Rightarrow> string \<Rightarrow> string \<Rightarrow> pydict option \<Rightarrow> string \<Rightarrow> nat option \<Rightarrow> bool \<Rightarrow> world
    \<Rightarrow> (exn + result) \<times> world" where
  "Api_request nt self meth url params params_type hdrs raise w =
     (let h = headers_or hdrs self w;
          url' = api_host self @ ''/'' @ version self @ ''/'' @ url;
          w1 = w\<lparr>debug_log := debug_log w @
                 [LogRequest \<lparr>lg_verb = meth, lg_url = url', lg_params = params,
                    lg_params_type = params_type, lg_headers = heap w h,
                    lg_raise_for_status = raise\<rparr>]\<rparr>;
          w2 = w1\<lparr>heap := (heap w1)(h := AList.update ''API-KEY'' (Str (api_key self)) (heap w1 h))\<rparr>;
          body = (case params of
                    None \<Rightarrow> None
                  | Some p \<Rightarrow> if p = [] then None else Some (params_type, p))
      in case requests_request nt meth url' (heap w2 h) body w2 of
           (Inl e, w3) \<Rightarrow> (Inl e, w3)
         | (Inr r, w3) \<Rightarrow>
             (let w4 = w3\<lparr>debug_log := debug_log w3 @ [LogResponse r]\<rparr>
              in if raise then
                   (case raise_for_status r of
                      Inl e \<Rightarrow> (Inl e, w4)
                    | Inr _ \<Rightarrow>
                        (case json r of
                           None \<Rightarrow> (Inl JSONDecodeError, w4)
                         | Some j \<Rightarrow> (Inr (Json j), w4)))
                 else (Inr (Raw r), w4)))"

subsection \<open>Keyword arguments and field validation\<close>

text \<open>
  A keyword of a call is either left out or passed. The embedding is typed: a keyword
  carries a value of its field's declared type, an \<^verbatim>\<open>Optional\<close> field an
  \<open>option\<close> (\<open>Passed None\<close> is an explicit \<^verbatim>\<open>None\<close>). pydantic's
  coercion of values of other types and its dropping of unknown keywords lie outside it.
\<close>

datatype 'a kwarg = Omitted | Passed 'a

text \<open>
  A field's validation yields the stored value, or \<open>None\<close> when the field is in
  error. A required field (\<^verbatim>\<open>Field(...)\<close>, or an annotation without default that is
  not \<^verbatim>\<open>Optional\<close>) must be passed; a field with a default takes it unvalidated; an
  \<^verbatim>\<open>Optional\<close> field defaults to \<^verbatim>\<open>None\<close>, and \<^verbatim>\<open>None\<close> skips its
  constraints.
\<close>

fun required :: "('a \<Rightarrow> 'b option) \<Rightarrow> 'a kwarg \<Rightarrow> 'b option" where
  "required f Omitted = None"
| "required f (Passed x) = f x"

fun with_default :: "'b \<Rightarrow> ('a \<Rightarrow> 'b option) \<Rightarrow> 'a kwarg \<Rightarrow> 'b option" where
  "with_default d f Omitted = Some d"
| "with_default d f (Passed x) = f x"

fun allow_none :: "('a \<Rightarrow> 'b option) \<Rightarrow> 'a option \<Rightarrow> 'b option option" where
  "allow_none f None = Some None"
| "allow_none f (Some x) = map_option Some (f x)"

definition optional :: "('a \<Rightarrow> 'b option) \<Rightarrow> 'a option kwarg \<Rightarrow> 'b option option" where
  "optional f = with_default None (allow_none f)"

definition constr :: "('a \<Rightarrow> bool) \<Rightarrow> 'a \<Rightarrow> 'a option" where
  "constr P x = (if P x then Some x else None)"

definition any :: "'a \<Rightarrow> 'a option" where
  "any x = Some x"

text \<open>The location a failed field contributes to the \<^verbatim>\<open>ValidationError\<close>.\<close>

definition err :: "string \<Rightarrow> 'a option \<Rightarrow> string list" where
  "err name v = (case v of None \<Rightarrow> [name] | Some _ \<Rightarrow> [])"

text \<open>The name a passed keyword contributes to \<^verbatim>\<open>__fields_set__\<close>.\<close>

definition given :: "string \<Rightarrow> 'a kwarg \<Rightarrow> string list" where
  "given name k = (case k of Omitted \<Rightarrow> [] | Passed _ \<Rightarrow> [name])"

subsection \<open>\<^verbatim>\<open>Api.__init__\<close>\<close>

text \<open>
  pydantic's \<^verbatim>\<open>HttpUrl\<close> validator is a parameter \<open>HttpUrl\<close> of the embedding: it
  returns the validated URL, or \<open>None\<close> for a malformed one. Line 436 then binds
  \<open>headers\<close> to a fresh dictionary that holds the \<^verbatim>\<open>SecretStr\<close> object (a
  \<^verbatim>\<open>headers\<close> keyword would be overwritten there, so it is not modelled).
\<close>

record Api_kwargs =
  kw_api_host :: "string kwarg"
  kw_api_key :: "string kwarg"
  kw_version :: "string kwarg"

definition Api_init ::
  "(string \<Rightarrow> string option) \<Rightarrow> Api_kwargs \<Rightarrow> world \<Rightarrow> (exn + Api) \<times> world" where
  "Api_init HttpUrl kw w =
     (let host = with_default ''https://stage-api.ioka.kz'' HttpUrl (kw_api_host kw);
          key = required any (kw_api_key kw);
          ver = with_default ''v2'' any (kw_version kw);
          errs = err ''api_host'' host @ err ''api_key'' key @ err ''version'' ver
      in if errs \<noteq> [] then (Inl (ValidationError errs), w)
         else
           (let a = next_addr w
            in (Inr \<lparr>api_host = the host, api_key = the key, version = the ver, headers = a\<rparr>,
                w\<lparr>heap := (heap w)(a := [(''API-KEY'', SecretStr (the key)),
                                          (''Content-Type'', Str ''application/json'')]),
                  next_addr := Suc a\<rparr>)))"

subsection \<open>Request records\<close>

text \<open>
  The module object: the one value computed when the module is loaded. Line 65 passes
  \<^verbatim>\<open>str(uuid4())\<close> to \<^verbatim>\<open>Field\<close> as the default of \<^verbatim>\<open>external_id\<close>, so the
  call is made once, while the class body runs. \<open>uuid4\<close> is the sequence of
  identifiers the generator hands out, the counter how many it has handed out.
\<close>

record module =
  external_id_default :: string

definition load_module :: "(nat \<Rightarrow> string) \<Rightarrow> nat \<Rightarrow> module \<times> nat" where
  "load_module uuid4 n = (\<lparr>external_id_default = uuid4 n\<rparr>, Suc n)"

definition CurrencyEnum :: "string list" where
  "CurrencyEnum = [''KZT'', ''USD'', ''RUB'']"

definition CaptureMethodEnum :: "string list" where
  "CaptureMethodEnum = [''AUTO'', ''MANUAL'']"

definition OperationTypeEnum :: "int list" where
  "OperationTypeEnum = [0, 100]"

definition py_opt :: "('a \<Rightarrow> pyval) \<Rightarrow> 'a option \<Rightarrow> pyval" where
  "py_opt f v = (case v of None \<Rightarrow> PNone | Some x \<Rightarrow> f x)"

text \<open>
  \<^verbatim>\<open>.dict(exclude_unset=True)\<close>: the fields in declaration order, those that were
  not passed left out.
\<close>

definition exclude_unset :: "string list \<Rightarrow> pydict \<Rightarrow> pydict" where
  "exclude_unset fields_set d = filter (\<lambda>(k, v). k \<in> set fields_set) d"

paragraph \<open>\<^verbatim>\<open>CreateOrder\<close>, lines 61 to 79\<close>

record CreateOrder_kwargs =
  kw_amount :: "int kwarg"
  kw_currency :: "string option kwarg"
  kw_capture_method :: "string option kwarg"
  kw_external_id :: "string kwarg"
  kw_description :: "string option kwarg"
  kw_mcc :: "string option kwarg"
  kw_extra_info :: "pydict option kwarg"
  kw_attempts :: "int kwarg"
  kw_due_date :: "string option kwarg"
  kw_customer_id :: "string option kwarg"
  kw_card_id :: "string option kwarg"
  kw_back_url :: "string option kwarg"
  kw_success_url :: "string option kwarg"
  kw_failure_url :: "string option kwarg"
  kw_template :: "string option kwarg"

record CreateOrder =
  co_amount :: int
  co_currency :: "string option"
  co_capture_method :: "string option"
  co_external_id :: string
  co_description :: "string option"
  co_mcc :: "string option"
  co_extra_info :: "pydict option"
  co_attempts :: int
  co_due_date :: "string option"
  co_customer_id :: "string option"
  co_card_id :: "string option"
  co_back_url :: "string option"
  co_success_url :: "string option"
  co_failure_url :: "string option"
  co_template :: "string option"
  co_fields_set :: "string list"

definition CreateOrder_init ::
  "(string \<Rightarrow> string option) \<Rightarrow> module \<Rightarrow> CreateOrder_kwargs \<Rightarrow> exn + CreateOrder" where
  "CreateOrder_init HttpUrl m kw =
     (let amount = required (constr (\<lambda>n. 100 \<le> n)) (kw_amount kw);
          currency = optional (constr (\<lambda>s. s \<in> set CurrencyEnum)) (kw_currency kw);
          capture_method = optional (constr (\<lambda>s. s \<in> set CaptureMethodEnum)) (kw_capture_method kw);
          external_id = with_default (external_id_default m) (constr (\<lambda>s. 1 \<le> length s))
                          (kw_external_id kw);
          description = optional any (kw_description kw);
          mcc = optional (constr (\<lambda>s. 4 \<le> length s \<and> length s \<le> 4)) (kw_mcc kw);
          extra_info = optional any (kw_extra_info kw);
          attempts = with_default 10 (constr (\<lambda>n. 1 \<le> n \<and> n \<le> 50)) (kw_attempts kw);
          due_date = optional any (kw_due_date kw);
          customer_id = optional (constr (\<lambda>s. 1 \<le> length s)) (kw_customer_id kw);
          card_id = optional (constr (\<lambda>s. 1 \<le> length s)) (kw_card_id kw);
          back_url = optional HttpUrl (kw_back_url kw);
          success_url = optional HttpUrl (kw_success_url kw);
          failure_url = optional HttpUrl (kw_failure_url kw);
          template = optional any (kw_template kw);
          errs = err ''amount'' amount @ err ''currency'' currency
               @ err ''capture_method'' capture_method @ err ''external_id'' external_id
               @ err ''description'' description @ err ''mcc'' mcc
               @ err ''extra_info'' extra_info @ err ''attempts'' attempts
               @ err ''due_date'' due_date @ err ''customer_id'' customer_id
               @ err ''card_id'' card_id @ err ''back_url'' back_url
               @ err ''success_url'' success_url @ err ''failure_url'' failure_url
               @ err ''template'' template
      in if errs \<noteq> [] then Inl (ValidationError errs)
         else Inr \<lparr>co_amount = the amount, co_currency = the currency,
                co_capture_method = the capture_method, co_external_id = the external_id,
                co_description = the description, co_mcc = the mcc,
                co_extra_info = the extra_info, co_attempts = the attempts,
                co_due_date = the due_date, co_customer_id = the customer_id,
                co_card_id = the card_id, co_back_url = the back_url,
                co_success_url = the success_url, co_failure_url = the failure_url,
                co_template = the template,
                co_fields_set =
                  given ''amount'' (kw_amount kw) @ given ''currency'' (kw_currency kw)
                  @ given ''capture_method'' (kw_capture_method kw)
                  @ given ''external_id'' (kw_external_id kw)
                  @ given ''description'' (kw_description kw) @ given ''mcc'' (kw_mcc kw)
                  @ given ''extra_info'' (kw_extra_info kw)
                  @ given ''attempts'' (kw_attempts kw) @ given ''due_date'' (kw_due_date kw)
                  @ given ''customer_id'' (kw_customer_id kw)
                  @ given ''card_id'' (kw_card_id kw) @ given ''back_url'' (kw_back_url kw)
                  @ given ''success_url'' (kw_success_url kw)
                  @ given ''failure_url'' (kw_failure_url kw)
                  @ given ''template'' (kw_template kw)\<rparr>)"

definition CreateOrder_dict :: "CreateOrder \<Rightarrow> pydict" where
  "CreateOrder_dict r =
     exclude_unset (co_fields_set r)
       [(''amount'', PInt (co_amount r)),
        (''currency'', py_opt PStr (co_currency r)),
        (''capture_method'', py_opt PStr (co_capture_method r)),
        (''external_id'', PStr (co_external_id r)),
        (''description'', py_opt PStr (co_description r)),
        (''mcc'', py_opt PStr (co_mcc r)),
        (''extra_info'', py_opt PDict (co_extra_info r)),
        (''attempts'', PInt (co_attempts r)),
        (''due_date'', py_opt PStr (co_due_date r)),
        (''customer_id'', py_opt PStr (co_customer_id r)),
        (''card_id'', py_opt PStr (co_card_id r)),
        (''back_url'', py_opt PStr (co_back_url r)),
        (''success_url'', py_opt PStr (co_success_url r)),
        (''failure_url'', py_opt PStr (co_failure_url r)),
        (''template'', py_opt PStr (co_template r))]"

paragraph \<open>\<^verbatim>\<open>CancelOrder\<close>, lines 82 to 84\<close>

record CancelOrder_kwargs =
  kw_cn_order_id :: "string kwarg"
  kw_cn_reason :: "string kwarg"

record CancelOrder =
  cn_order_id :: string
  cn_reason :: string
  cn_fields_set :: "string list"

definition CancelOrder_init :: "CancelOrder_kwargs \<Rightarrow> exn + CancelOrder" where
  "CancelOrder_init kw =
     (let order_id = required any (kw_cn_order_id kw);
          reason = required (constr (\<lambda>s. length s \<le> 255)) (kw_cn_reason kw);
          errs = err ''order_id'' order_id @ err ''reason'' reason
      in if errs \<noteq> [] then Inl (ValidationError errs)
         else Inr \<lparr>cn_order_id = the order_id, cn_reason = the reason,
                cn_fields_set =
                  given ''order_id'' (kw_cn_order_id kw) @ given ''reason'' (kw_cn_reason kw)\<rparr>)"

definition CancelOrder_dict :: "CancelOrder \<Rightarrow> pydict" where
  "CancelOrder_dict r =
     exclude_unset (cn_fields_set r)
       [(''order_id'', PStr (cn_order_id r)), (''reason'', PStr (cn_reason r))]"

paragraph \<open>\<^verbatim>\<open>CaptureOrder\<close>, lines 165 to 167\<close>

text \<open>
  \<^verbatim>\<open>reason: str = Field(None, max_length=255)\<close>: a default of \<^verbatim>\<open>None\<close> makes
  the field optional and lets \<^verbatim>\<open>None\<close> through.
\<close>

record CaptureOrder_kwargs =
  kw_cp_amount :: "int kwarg"
  kw_cp_reason :: "string option kwarg"

record CaptureOrder =
  cp_amount :: int
  cp_reason :: "string option"
  cp_fields_set :: "string list"

definition CaptureOrder_init :: "CaptureOrder_kwargs \<Rightarrow> exn + CaptureOrder" where
  "CaptureOrder_init kw =
     (let amount = required (constr (\<lambda>n. 100 \<le> n)) (kw_cp_amount kw);
          reason = optional (constr (\<lambda>s. length s \<le> 255)) (kw_cp_reason kw);
          errs = err ''amount'' amount @ err ''reason'' reason
      in if errs \<noteq> [] then Inl (ValidationError errs)
         else Inr \<lparr>cp_amount = the amount, cp_reason = the reason,
                cp_fields_set =
                  given ''amount'' (kw_cp_amount kw) @ given ''reason'' (kw_cp_reason kw)\<rparr>)"

definition CaptureOrder_dict :: "CaptureOrder \<Rightarrow> pydict" where
  "CaptureOrder_dict r =
     exclude_unset (cp_fields_set r)
       [(''amount'', PInt (cp_amount r)), (''reason'', py_opt PStr (cp_reason r))]"

paragraph \<open>\<^verbatim>\<open>RefundRule\<close>, \<^verbatim>\<open>CheckPosition\<close> and \<^verbatim>\<open>RefundOrder\<close>, lines 260 to 292\<close>

record RefundRule_kwargs =
  kw_rr_account_id :: "string kwarg"
  kw_rr_amount :: "int kwarg"

record RefundRule =
  rr_account_id :: string
  rr_amount :: int
  rr_fields_set :: "string list"

definition RefundRule_init :: "RefundRule_kwargs \<Rightarrow> exn + RefundRule" where
  "RefundRule_init kw =
     (let account_id = required any (kw_rr_account_id kw);
          amount = required any (kw_rr_amount kw);
          errs = err ''account_id'' account_id @ err ''amount'' amount
      in if errs \<noteq> [] then Inl (ValidationError errs)
         else Inr \<lparr>rr_account_id = the account_id, rr_amount = the amount,
                rr_fields_set =
                  given ''account_id'' (kw_rr_account_id kw)
                  @ given ''amount'' (kw_rr_amount kw)\<rparr>)"

definition RefundRule_dict :: "RefundRule \<Rightarrow> pydict" where
  "RefundRule_dict r =
     exclude_unset (rr_fields_set r)
       [(''account_id'', PStr (rr_account_id r)), (''amount'', PInt (rr_amount r))]"

record CheckPosition_kwargs =
  kw_ps_name :: "string kwarg"
  kw_ps_amount :: "int kwarg"
  kw_ps_count :: "int kwarg"
  kw_ps_section :: "int option kwarg"
  kw_ps_tax_percent :: "int option kwarg"
  kw_ps_tax_type :: "int option kwarg"
  kw_ps_tax_amount :: "int option kwarg"
  kw_ps_unit_code :: "int option kwarg"

record CheckPosition =
  ps_name :: string
  ps_amount :: int
  ps_count :: int
  ps_section :: "int option"
  ps_tax_percent :: "int option"
  ps_tax_type :: "int option"
  ps_tax_amount :: "int option"
  ps_unit_code :: "int option"
  ps_fields_set :: "string list"

definition CheckPosition_init :: "CheckPosition_kwargs \<Rightarrow> exn + CheckPosition" where
  "CheckPosition_init kw =
     (let name = required any (kw_ps_name kw);
          amount = required any (kw_ps_amount kw);
          count = required any (kw_ps_count kw);
          section = optional any (kw_ps_section kw);
          tax_percent = with_default (Some 0) (allow_none any) (kw_ps_tax_percent kw);
          tax_type = with_default (Some 0)
                       (allow_none (constr (\<lambda>n. n \<in> set OperationTypeEnum)))
                       (kw_ps_tax_type kw);
          tax_amount = with_default (Some 0) (allow_none any) (kw_ps_tax_amount kw);
          unit_code = with_default (Some 0) (allow_none any) (kw_ps_unit_code kw);
          errs = err ''name'' name @ err ''amount'' amount @ err ''count'' count
               @ err ''section'' section @ err ''tax_percent'' tax_percent
               @ err ''tax_type'' tax_type @ err ''tax_amount'' tax_amount
               @ err ''unit_code'' unit_code
      in if errs \<noteq> [] then Inl (ValidationError errs)
         else Inr \<lparr>ps_name = the name, ps_amount = the amount, ps_count = the count,
                ps_section = the section, ps_tax_percent = the tax_percent,
                ps_tax_type = the tax_type, ps_tax_amount = the tax_amount,
                ps_unit_code = the unit_code,
                ps_fields_set =
                  given ''name'' (kw_ps_name kw) @ given ''amount'' (kw_ps_amount kw)
                  @ given ''count'' (kw_ps_count kw) @ given ''section'' (kw_ps_section kw)
                  @ given ''tax_percent'' (kw_ps_tax_percent kw)
                  @ given ''tax_type'' (kw_ps_tax_type kw)
                  @ given ''tax_amount'' (kw_ps_tax_amount kw)
                  @ given ''unit_code'' (kw_ps_unit_code kw)\<rparr>)"

definition CheckPosition_dict :: "CheckPosition \<Rightarrow> pydict" where
  "CheckPosition_dict r =
     exclude_unset (ps_fields_set r)
       [(''name'', PStr (ps_name r)), (''amount'', PInt (ps_amount r)),
        (''count'', PInt (ps_count r)), (''section'', py_opt PInt (ps_section r)),
        (''tax_percent'', py_opt PInt (ps_tax_percent r)),
        (''tax_type'', py_opt PInt (ps_tax_type r)),
        (''tax_amount'', py_opt PInt (ps_tax_amount r)),
        (''unit_code'', py_opt PInt (ps_unit_code r))]"

text \<open>A \<^verbatim>\<open>List\<close> of sub-models is valid when every item is.\<close>

fun each :: "('a \<Rightarrow> exn + 'b) \<Rightarrow> 'a list \<Rightarrow> 'b list option" where
  "each f [] = Some []"
| "each f (x # xs) =
     (case f x of
        Inl e \<Rightarrow> None
      | Inr y \<Rightarrow> (case each f xs of None \<Rightarrow> None | Some ys \<Rightarrow> Some (y # ys)))"

record RefundOrder_kwargs =
  kw_rf_amount :: "int kwarg"
  kw_rf_reason :: "string option kwarg"
  kw_rf_rules :: "RefundRule_kwargs list option kwarg"
  kw_rf_positions :: "CheckPosition_kwargs list option kwarg"

record RefundOrder =
  rf_amount :: int
  rf_reason :: "string option"
  rf_rules :: "RefundRule list option"
  rf_positions :: "CheckPosition list option"
  rf_fields_set :: "string list"

definition RefundOrder_init :: "RefundOrder_kwargs \<Rightarrow> exn + RefundOrder" where
  "RefundOrder_init kw =
     (let amount = required (constr (\<lambda>n. 100 \<le> n)) (kw_rf_amount kw);
          reason = optional (constr (\<lambda>s. length s \<le> 255)) (kw_rf_reason kw);
          rules = optional (each RefundRule_init) (kw_rf_rules kw);
          positions = optional (each CheckPosition_init) (kw_rf_positions kw);
          errs = err ''amount'' amount @ err ''reason'' reason @ err ''rules'' rules
               @ err ''positions'' positions
      in if errs \<noteq> [] then Inl (ValidationError errs)
         else Inr \<lparr>rf_amount = the amount, rf_reason = the reason, rf_rules = the rules,
                rf_positions = the positions,
                rf_fields_set =
                  given ''amount'' (kw_rf_amount kw) @ given ''reason'' (kw_rf_reason kw)
                  @ given ''rules'' (kw_rf_rules kw)
                  @ given ''positions'' (kw_rf_positions kw)\<rparr>)"

definition RefundOrder_dict :: "RefundOrder \<Rightarrow> pydict" where
  "RefundOrder_dict r =
     exclude_unset (rf_fields_set r)
       [(''amount'', PInt (rf_amount r)), (''reason'', py_opt PStr (rf_reason r)),
        (''rules'', py_opt (\<lambda>xs. PList (map (\<lambda>x. PDict (RefundRule_dict x)) xs)) (rf_rules r)),
        (''positions'',
           py_opt (\<lambda>xs. PList (map (\<lambda>x. PDict (CheckPosition_dict x)) xs)) (rf_positions r))]"

subsection \<open>The operations of \<^verbatim>\<open>Api\<close>, lines 479 to 588\<close>

text \<open>
  Each builds \<^verbatim>\<open>request_params\<close> and calls \<^verbatim>\<open>self._request(**request_params)\<close>,
  so with \<^verbatim>\<open>params_type="json"\<close>, no \<^verbatim>\<open>headers\<close> and
  \<^verbatim>\<open>raise_for_status=True\<close>. Building the dictionary runs the record's validation
  first; its \<^verbatim>\<open>ValidationError\<close> leaves before anything is logged or sent.
\<close>

definition create_order ::
  "(string \<Rightarrow> string option) \<Rightarrow> module \<Rightarrow> net \<Rightarrow> Api \<Rightarrow> CreateOrder_kwargs \<Rightarrow> world
    \<Rightarrow> (exn + result) \<times> world" where
  "create_order HttpUrl m nt self data w =
     (case CreateOrder_init HttpUrl m data of
        Inl e \<Rightarrow> (Inl e, w)
      | Inr r \<Rightarrow>
          Api_request nt self ''post'' ''orders'' (Some (CreateOrder_dict r)) ''json'' None True w)"

text \<open>
  \<^verbatim>\<open>def cancel_order(self, order_id, **data)\<close>: the parameter \<open>order_id\<close> takes the
  keyword of that name, so \<open>data\<close> never holds it (passing it twice is Python's
  \<^verbatim>\<open>TypeError\<close>); line 500 validates \<open>data\<close> alone.
\<close>

definition cancel_order ::
  "net \<Rightarrow> Api \<Rightarrow> string \<Rightarrow> CancelOrder_kwargs \<Rightarrow> world \<Rightarrow> (exn + result) \<times> world" where
  "cancel_order nt self order_id data w =
     (if kw_cn_order_id data \<noteq> Omitted
      then (Inl (TypeError ''got multiple values for argument order_id''), w)
      else
        (case CancelOrder_init data of
           Inl e \<Rightarrow> (Inl e, w)
         | Inr r \<Rightarrow>
             Api_request nt self ''post'' (''orders/'' @ order_id @ ''/cancel'')
               (Some (CancelOrder_dict r)) ''json'' None True w))"

definition get_orders :: "net \<Rightarrow> Api \<Rightarrow> world \<Rightarrow> (exn + result) \<times> world" where
  "get_orders nt self w = Api_request nt self ''get'' ''orders'' None ''json'' None True w"

definition get_order_by_id :: "net \<Rightarrow> Api \<Rightarrow> string \<Rightarrow> world \<Rightarrow> (exn + result) \<times> world" where
  "get_order_by_id nt self order_id w =
     Api_request nt self ''get'' (''orders/'' @ order_id) None ''json'' None True w"

definition capture_order ::
  "net \<Rightarrow> Api \<Rightarrow> string \<Rightarrow> CaptureOrder_kwargs \<Rightarrow> world \<Rightarrow> (exn + result) \<times> world" where
  "capture_order nt self order_id data w =
     (case CaptureOrder_init data of
        Inl e \<Rightarrow> (Inl e, w)
      | Inr r \<Rightarrow>
          Api_request nt self ''post'' (''orders/'' @ order_id @ ''/capture'')
            (Some (CaptureOrder_dict r)) ''json'' None True w)"

definition get_order_events :: "net \<Rightarrow> Api \<Rightarrow> string \<Rightarrow> world \<Rightarrow> (exn + result) \<times> world" where
  "get_order_events nt self order_id w =
     Api_request nt self ''get'' (''orders/'' @ order_id @ ''/events'') None ''json'' None True w"

definition refund_order ::
  "net \<Rightarrow> Api \<Rightarrow> string \<Rightarrow> RefundOrder_kwargs \<Rightarrow> world \<Rightarrow> (exn + result) \<times> world" where
  "refund_order nt self order_id data w =
     (case RefundOrder_init data of
        Inl e \<Rightarrow> (Inl e, w)
      | Inr r \<Rightarrow>
          Api_request nt self ''post'' (''orders/'' @ order_id @ ''/refunds'')
            (Some (RefundOrder_dict r)) ''json'' None True w)"

definition get_refunds :: "net \<Rightarrow> Api \<Rightarrow> string \<Rightarrow> world \<Rightarrow> (exn + result) \<times> world" where
  "get_refunds nt self order_id w =
     Api_request nt self ''get'' (''orders/'' @ order_id @ ''/refunds'') None ''json'' None True w"

definition get_refund_by_id ::
  "net \<Rightarrow> Api \<Rightarrow> string \<Rightarrow> string \<Rightarrow> world \<Rightarrow> (exn + result) \<times> world" where
  "get_refund_by_id nt self order_id refund_id w =
     Api_request nt self ''get'' (''orders/'' @ order_id @ ''/refunds/'' @ refund_id) None
       ''json'' None True w"

subsection \<open>The \<^verbatim>\<open>Order\<close> facade, lines 319 to 413, and \<^verbatim>\<open>Ioka\<close>\<close>

record Order =
  ord_id :: string
  ord_shop_id :: string
  ord_status :: string
  ord_created_at :: string
  ord_amount :: int
  ord_currency :: string
  ord_capture_method :: string
  ord_external_id :: "string option"
  ord_description :: "string option"
  ord_extra_info :: "pydict option"
  ord_attempts :: "int option"
  ord_due_date :: "string option"
  ord_customer_id :: "string option"
  ord_card_id :: "string option"
  ord_mcc :: "string option"
  ord_back_url :: "string option"
  ord_success_url :: "string option"
  ord_failure_url :: "string option"
  ord_template :: "string option"
  ord_checkout_url :: "string option"
  ord_access_token :: "string option"

text \<open>
  \<^verbatim>\<open>set_api\<close> assigns the attribute \<^verbatim>\<open>api\<close> of the class object and returns the
  class object. The methods read it back as \<^verbatim>\<open>cls.api\<close> or, on an instance, as
  \<^verbatim>\<open>self.api\<close>, which finds the same class attribute.
\<close>

definition set_api :: "cls \<Rightarrow> Api \<Rightarrow> world \<Rightarrow> cls \<times> world" where
  "set_api c api w = (c, w\<lparr>class_api := (class_api w)(c := Some api)\<rparr>)"

definition Ioka_order :: "Api \<Rightarrow> world \<Rightarrow> cls \<times> world" where
  "Ioka_order self w = set_api Order_cls self w"

definition bound_api :: "cls \<Rightarrow> world \<Rightarrow> exn + Api" where
  "bound_api c w = (case class_api w c of None \<Rightarrow> Inl (AttributeError ''api'') | Some a \<Rightarrow> Inr a)"

text \<open>
  The response records are built from the JSON by pydantic, \<^verbatim>\<open>X(**json)\<close>; that
  construction is a parameter \<open>wrap\<close> of each method. What reaches it is the parsed
  body; the raw response of \<^verbatim>\<open>raise_for_status=False\<close> is no mapping.
\<close>

definition wrapped ::
  "(pyval \<Rightarrow> exn + 'r) \<Rightarrow> (exn + result) \<times> world \<Rightarrow> (exn + 'r) \<times> world" where
  "wrapped wrap rw =
     (case rw of
        (Inl e, w) \<Rightarrow> (Inl e, w)
      | (Inr (Json j), w) \<Rightarrow> (wrap j, w)
      | (Inr (Raw r), w) \<Rightarrow> (Inl (TypeError ''argument after ** must be a mapping''), w))"

text \<open>A list comprehension \<^verbatim>\<open>[X(**d) for d in json]\<close>: iteration, then the first error.\<close>

definition iterate :: "pyval \<Rightarrow> exn + pyval list" where
  "iterate j =
     (case j of
        PList xs \<Rightarrow> Inr xs
      | PDict d \<Rightarrow> Inr (map (\<lambda>(k, v). PStr k) d)
      | PStr cs \<Rightarrow> Inr (map (\<lambda>c. PStr [c]) cs)
      | _ \<Rightarrow> Inl (TypeError ''object is not iterable''))"

fun comprehension :: "('a \<Rightarrow> exn + 'b) \<Rightarrow> 'a list \<Rightarrow> exn + 'b list" where
  "comprehension f [] = Inr []"
| "comprehension f (x # xs) =
     (case f x of
        Inl e \<Rightarrow> Inl e
      | Inr y \<Rightarrow> (case comprehension f xs of Inl e \<Rightarrow> Inl e | Inr ys \<Rightarrow> Inr (y # ys)))"

definition wrap_each :: "(pyval \<Rightarrow> exn + 'r) \<Rightarrow> pyval \<Rightarrow> exn + 'r list" where
  "wrap_each wrap j = (case iterate j of Inl e \<Rightarrow> Inl e | Inr xs \<Rightarrow> comprehension wrap xs)"

definition dict_get :: "string \<Rightarrow> pyval \<Rightarrow> exn + pyval" where
  "dict_get k j =
     (case j of
        PDict d \<Rightarrow> Inr (case map_of d k of None \<Rightarrow> PNone | Some v \<Rightarrow> v)
      | _ \<Rightarrow> Inl (AttributeError ''get''))"

definition Order_create ::
  "(pyval \<Rightarrow> exn + Order) \<Rightarrow> (string \<Rightarrow> string option) \<Rightarrow> module \<Rightarrow> net \<Rightarrow> cls
    \<Rightarrow> CreateOrder_kwargs \<Rightarrow> world \<Rightarrow> (exn + Order) \<times> world" where
  "Order_create wrap HttpUrl m nt c data w =
     (case bound_api c w of
        Inl e \<Rightarrow> (Inl e, w)
      | Inr api \<Rightarrow>
          wrapped (\<lambda>j. case dict_get ''order'' j of Inl e \<Rightarrow> Inl e | Inr v \<Rightarrow> wrap v)
            (create_order HttpUrl m nt api data w))"

text \<open>
  \<^verbatim>\<open>Order.cancel(**data)\<close> calls \<^verbatim>\<open>cls.api.cancel_order(**data)\<close>: the keyword
  \<open>order_id\<close> of \<open>data\<close> becomes the parameter, the rest stays in \<open>data\<close>.
\<close>

definition Order_cancel ::
  "(pyval \<Rightarrow> exn + 'r) \<Rightarrow> net \<Rightarrow> cls \<Rightarrow> CancelOrder_kwargs \<Rightarrow> world \<Rightarrow> (exn + 'r) \<times> world" where
  "Order_cancel wrap nt c data w =
     (case bound_api c w of
        Inl e \<Rightarrow> (Inl e, w)
      | Inr api \<Rightarrow>
          (case kw_cn_order_id data of
             Omitted \<Rightarrow> (Inl (TypeError ''missing required argument order_id''), w)
           | Passed order_id \<Rightarrow>
               wrapped wrap (cancel_order nt api order_id (data\<lparr>kw_cn_order_id := Omitted\<rparr>) w)))"

definition Order_list ::
  "(pyval \<Rightarrow> exn + Order) \<Rightarrow> net \<Rightarrow> cls \<Rightarrow> world \<Rightarrow> (exn + Order list) \<times> world" where
  "Order_list wrap nt c w =
     (case bound_api c w of
        Inl e \<Rightarrow> (Inl e, w)
      | Inr api \<Rightarrow> wrapped (wrap_each wrap) (get_orders nt api w))"

definition Order_retrieve ::
  "(pyval \<Rightarrow> exn + Order) \<Rightarrow> net \<Rightarrow> cls \<Rightarrow> string \<Rightarrow> world \<Rightarrow> (exn + Order) \<times> world" where
  "Order_retrieve wrap nt c order_id w =
     (case bound_api c w of
        Inl e \<Rightarrow> (Inl e, w)
      | Inr api \<Rightarrow> wrapped wrap (get_order_by_id nt api order_id w))"

definition Order_capture ::
  "(pyval \<Rightarrow> exn + 'r) \<Rightarrow> net \<Rightarrow> Order \<Rightarrow> CaptureOrder_kwargs \<Rightarrow> world \<Rightarrow> (exn + 'r) \<times> world" where
  "Order_capture wrap nt self data w =
     (case bound_api Order_cls w of
        Inl e \<Rightarrow> (Inl e, w)
      | Inr api \<Rightarrow> wrapped wrap (capture_order nt api (ord_id self) data w))"

definition Order_get_events ::
  "(pyval \<Rightarrow> exn + 'r) \<Rightarrow> net \<Rightarrow> Order \<Rightarrow> world \<Rightarrow> (exn + 'r list) \<times> world" where
  "Order_get_events wrap nt self w =
     (case bound_api Order_cls w of
        Inl e \<Rightarrow> (Inl e, w)
      | Inr api \<Rightarrow> wrapped (wrap_each wrap) (get_order_events nt api (ord_id self) w))"

definition Order_refund ::
  "(pyval \<Rightarrow> exn + 'r) \<Rightarrow> net \<Rightarrow> Order \<Rightarrow> RefundOrder_kwargs \<Rightarrow> world \<Rightarrow> (exn + 'r) \<times> world" where
  "Order_refund wrap nt self data w =
     (case bound_api Order_cls w of
        Inl e \<Rightarrow> (Inl e, w)
      | Inr api \<Rightarrow> wrapped wrap (refund_order nt api (ord_id self) data w))"

definition Order_refund_list ::
  "(pyval \<Rightarrow> exn + 'r) \<Rightarrow> net \<Rightarrow> Order \<Rightarrow> world \<Rightarrow> (exn + 'r list) \<times> world" where
  "Order_refund_list wrap nt self w =
     (case bound_api Order_cls w of
        Inl e \<Rightarrow> (Inl e, w)
      | Inr api \<Rightarrow> wrapped (wrap_each wrap) (get_refunds nt api (ord_id self) w))"

definition Order_refund_retrieve ::
  "(pyval \<Rightarrow> exn + 'r) \<Rightarrow> net \<Rightarrow> Order \<Rightarrow> string \<Rightarrow> world \<Rightarrow> (exn + 'r) \<times> world" where
  "Order_refund_retrieve wrap nt self refund_id w =
     (case bound_api Order_cls w of
        Inl e \<Rightarrow> (Inl e, w)
      | Inr api \<Rightarrow> wrapped wrap (get_refund_by_id nt api (ord_id self) refund_id w))"

subsection \<open>\<^verbatim>\<open>ISODatetime.validate\<close>, lines 13 to 31\<close>






















subsection \<open>Notions the properties are stated with\<close>

text \<open>
  A \<^verbatim>\<open>headers\<close> argument is falsy when it is left out (\<^verbatim>\<open>None\<close>) or an empty
  dictionary.
\<close>

definition falsy :: "nat option \<Rightarrow> world \<Rightarrow> bool" where
  "falsy hdrs w = (case hdrs of None \<Rightarrow> True | Some a \<Rightarrow> heap w a = [])"

text \<open>
  Concrete inputs for the closed instances below: the world before any client exists, a
  URL validator that accepts the two schemes, a service that answers every call with
  200 and an empty JSON object, and two clients.
\<close>

definition w0 :: world where
  "w0 = \<lparr>heap = (\<lambda>a. []), next_addr = 0, class_api = (\<lambda>c. None), debug_log = [], sent = []\<rparr>"

definition url0 :: "string \<Rightarrow> string option" where
  "url0 u = (if prefix ''http://'' u \<or> prefix ''https://'' u then Some u else None)"

definition ok200 :: response where
  "ok200 = \<lparr>status_code = 200, resp_text = ''{}'', json = Some (PDict [])\<rparr>"

definition net0 :: net where
  "net0 rqs = Inr ok200"

definition client_a :: Api where
  "client_a = \<lparr>api_host = ''https://stage-api.ioka.kz'', api_key = ''key-of-a'',
               version = ''v2'', headers = 0\<rparr>"

definition client_b :: Api where
  "client_b = \<lparr>api_host = ''https://api.ioka.kz'', api_key = ''key-of-b'',
               version = ''v2'', headers = 1\<rparr>"

definition kw_a :: Api_kwargs where
  "kw_a = \<lparr>kw_api_host = Omitted, kw_api_key = Passed ''key-of-a'', kw_version = Omitted\<rparr>"

definition kw_b :: Api_kwargs where
  "kw_b = \<lparr>kw_api_host = Passed ''https://api.ioka.kz'', kw_api_key = Passed ''key-of-b'',
           kw_version = Omitted\<rparr>"

definition w_a :: world where
  "w_a = snd (Api_init url0 kw_a w0)"

definition w_ab :: world where
  "w_ab = snd (Api_init url0 kw_b w_a)"

text \<open>
  The request a row of the operations table prescribes: the verb, the URL
  \<^verbatim>\<open>{api_host}/{version}/{path}\<close>, the instance's headers with the key stored, and
  the body.
\<close>

definition request_to ::
  "Api \<Rightarrow> world \<Rightarrow> string \<Rightarrow> string \<Rightarrow> (string \<times> pydict) option \<Rightarrow> http_request" where
  "request_to self w verb path body =
     \<lparr>rq_verb = verb,
      rq_url = api_host self @ ''/'' @ version self @ ''/'' @ path,
      rq_headers = AList.update ''API-KEY'' (Str (api_key self)) (heap w (headers self)),
      rq_params = body\<rparr>"

text \<open>The order of the repository's tests, and its world: the first client bound.\<close>

definition order1 :: Order where
  "order1 =
     \<lparr>ord_id = ''1'', ord_shop_id = ''123'', ord_status = ''UNPAID'',
      ord_created_at = ''2022-03-18T12:00:00'', ord_amount = 50000, ord_currency = ''KZT'',
      ord_capture_method = ''AUTO'', ord_external_id = Some ''1234'',
      ord_description = Some ''Test order'',
      ord_extra_info = Some [(''key'', PStr ''value'')], ord_attempts = Some 10,
      ord_due_date = Some ''2022-03-19T12:00:00Z'', ord_customer_id = Some ''5678'',
      ord_card_id = Some ''91011'', ord_mcc = Some ''1234'',
      ord_back_url = Some ''http://example.com/back'',
      ord_success_url = Some ''http://example.com/success'',
      ord_failure_url = Some ''http://example.com/failure'',
      ord_template = Some ''default'',
      ord_checkout_url = Some ''http://example.com/checkout'',
      ord_access_token = Some ''1234''\<rparr>"

definition w_bound_a :: world where
  "w_bound_a = snd (Ioka_order client_a w_ab)"


text \<open>A service that answers every call with the same response, and four responses.\<close>

definition answer :: "response \<Rightarrow> net" where
  "answer r rqs = Inr r"

definition not_found :: response where
  "not_found = \<lparr>status_code = 404, resp_text = ''{}'', json = Some (PDict [])\<rparr>"

definition not_modified :: response where
  "not_modified = \<lparr>status_code = 304, resp_text = [], json = None\<rparr>"

definition multiple_choices :: response where
  "multiple_choices = \<lparr>status_code = 300, resp_text = ''[]'', json = Some (PList [])\<rparr>"

definition no_content :: response where
  "no_content = \<lparr>status_code = 204, resp_text = [], json = None\<rparr>"


text \<open>
  The entry a field contributes to an outgoing payload: the field's value under its name
  when its keyword was passed, nothing otherwise.
\<close>

definition entry :: "string \<Rightarrow> 'a kwarg \<Rightarrow> pyval \<Rightarrow> pydict" where
  "entry name k v = (case k of Omitted \<Rightarrow> [] | Passed x \<Rightarrow> [(name, v)])"

text \<open>
  The bounds that the list of claim C5 names, read on the keywords of each request
  record: an amount under 100, an \<open>mcc\<close> of a length other than 4, attempts outside 1
  to 50, a reason of more than 255 characters, a malformed URL.
\<close>

definition too_long :: "string option kwarg \<Rightarrow> bool" where
  "too_long k = (case k of Passed (Some s) \<Rightarrow> 255 < length s | _ \<Rightarrow> False)"

definition too_small :: "int kwarg \<Rightarrow> bool" where
  "too_small k = (case k of Passed a \<Rightarrow> a < 100 | Omitted \<Rightarrow> False)"

definition malformed :: "(string \<Rightarrow> string option) \<Rightarrow> string option kwarg \<Rightarrow> bool" where
  "malformed HttpUrl k = (case k of Passed (Some u) \<Rightarrow> HttpUrl u = None | _ \<Rightarrow> False)"

definition CreateOrder_listed_violation ::
  "(string \<Rightarrow> string option) \<Rightarrow> CreateOrder_kwargs \<Rightarrow> bool" where
  "CreateOrder_listed_violation HttpUrl kw \<longleftrightarrow>
     too_small (kw_amount kw)
     \<or> (case kw_mcc kw of Passed (Some s) \<Rightarrow> length s \<noteq> 4 | _ \<Rightarrow> False)
     \<or> (case kw_attempts kw of Passed n \<Rightarrow> n < 1 \<or> 50 < n | Omitted \<Rightarrow> False)
     \<or> malformed HttpUrl (kw_back_url kw) \<or> malformed HttpUrl (kw_success_url kw)
     \<or> malformed HttpUrl (kw_failure_url kw)"

definition CaptureOrder_listed_violation :: "CaptureOrder_kwargs \<Rightarrow> bool" where
  "CaptureOrder_listed_violation kw \<longleftrightarrow> too_small (kw_cp_amount kw) \<or> too_long (kw_cp_reason kw)"

text \<open>Example keywords: no keyword at all, and a generator of identifiers.\<close>

definition no_keywords :: CreateOrder_kwargs where
  "no_keywords =
     \<lparr>kw_amount = Omitted, kw_currency = Omitted, kw_capture_method = Omitted,
      kw_external_id = Omitted, kw_description = Omitted, kw_mcc = Omitted,
      kw_extra_info = Omitted, kw_attempts = Omitted, kw_due_date = Omitted,
      kw_customer_id = Omitted, kw_card_id = Omitted, kw_back_url = Omitted,
      kw_success_url = Omitted, kw_failure_url = Omitted, kw_template = Omitted\<rparr>"

definition uuid0 :: "nat \<Rightarrow> string" where
  "uuid0 n = ''uuid-'' @ replicate n CHR ''x''"

definition module0 :: module where
  "module0 = fst (load_module uuid0 0)"


text \<open>
  The keywords of the specification's example, \<^verbatim>\<open>amount=50000, currency="KZT",
  capture_method="AUTO"\<close>, and keyword sets for the other records.
\<close>

definition kzt_order :: CreateOrder_kwargs where
  "kzt_order = no_keywords\<lparr>kw_amount := Passed 50000, kw_currency := Passed (Some ''KZT''),
                 kw_capture_method := Passed (Some ''AUTO'')\<rparr>"

definition bare_position :: CheckPosition_kwargs where
  "bare_position =
     \<lparr>kw_ps_name = Passed ''tea'', kw_ps_amount = Passed 300, kw_ps_count = Passed 2,
      kw_ps_section = Omitted, kw_ps_tax_percent = Omitted, kw_ps_tax_type = Omitted,
      kw_ps_tax_amount = Omitted, kw_ps_unit_code = Omitted\<rparr>"

definition partial_refund :: RefundOrder_kwargs where
  "partial_refund =
     \<lparr>kw_rf_amount = Passed 600, kw_rf_reason = Passed None, kw_rf_rules = Omitted,
      kw_rf_positions = Passed (Some [bare_position])\<rparr>"


text \<open>
  A request carries a client's configuration when its URL starts with the client's host
  and version and its \<^verbatim>\<open>API-KEY\<close> header is the client's key. A step from \<open>w\<close> to
  \<open>w'\<close> sends as a client when it keeps the requests sent before and every request it
  adds carries that client's configuration.
\<close>

definition carries :: "Api \<Rightarrow> http_request \<Rightarrow> bool" where
  "carries x rq \<longleftrightarrow>
     prefix (api_host x @ ''/'' @ version x @ ''/'') (rq_url rq)
     \<and> map_of (rq_headers rq) ''API-KEY'' = Some (Str (api_key x))"

definition sends_as :: "Api \<Rightarrow> world \<Rightarrow> world \<Rightarrow> bool" where
  "sends_as x w w' \<longleftrightarrow>
     take (length (sent w)) (sent w') = sent w
     \<and> list_all (carries x) (drop (length (sent w)) (sent w'))"





subsection \<open>Facts about \<^verbatim>\<open>_request\<close>\<close>

lemma err_Nil_iff: "err name v = [] \<longleftrightarrow> v \<noteq> None"
  by (simp add: err_def split: option.splits)

lemma Api_request_heap:
  "heap (snd (Api_request nt self meth url params ptype hdrs raise w)) =
     (heap w)(headers_or hdrs self w :=
        AList.update ''API-KEY'' (Str (api_key self)) (heap w (headers_or hdrs self w)))"
  by (simp add: Api_request_def requests_request_def Let_def
      split: prod.splits sum.splits option.splits)

lemma Api_request_sent:
  "sent (snd (Api_request nt self meth url params ptype hdrs raise w)) =
     sent w @
     [\<lparr>rq_verb = map upper_char meth,
       rq_url = api_host self @ ''/'' @ version self @ ''/'' @ url,
       rq_headers = AList.update ''API-KEY'' (Str (api_key self)) (heap w (headers_or hdrs self w)),
       rq_params = (case params of None \<Rightarrow> None
                    | Some p \<Rightarrow> if p = [] then None else Some (ptype, p))\<rparr>]"
  by (simp add: Api_request_def requests_request_def Let_def
      split: prod.splits sum.splits option.splits)

lemma Api_request_class_api:
  "class_api (snd (Api_request nt self meth url params ptype hdrs raise w)) = class_api w"
  by (simp add: Api_request_def requests_request_def Let_def
      split: prod.splits sum.splits option.splits)

lemma Api_request_log:
  "\<exists>rest. debug_log (snd (Api_request nt self meth url params ptype hdrs raise w)) =
     debug_log w @
     LogRequest \<lparr>lg_verb = meth,
       lg_url = api_host self @ ''/'' @ version self @ ''/'' @ url,
       lg_params = params, lg_params_type = ptype,
       lg_headers = heap w (headers_or hdrs self w),
       lg_raise_for_status = raise\<rparr> # rest"
  by (simp add: Api_request_def requests_request_def Let_def
      split: prod.splits sum.splits option.splits)

lemma headers_or_falsy: "falsy hdrs w \<Longrightarrow> headers_or hdrs self w = headers self"
  by (auto simp: headers_or_def falsy_def split: option.splits)

lemma Api_request_log_nth:
  "debug_log (snd (Api_request nt self meth url params ptype hdrs raise w)) ! length (debug_log w) =
     LogRequest \<lparr>lg_verb = meth,
       lg_url = api_host self @ ''/'' @ version self @ ''/'' @ url,
       lg_params = params, lg_params_type = ptype,
       lg_headers = heap w (headers_or hdrs self w),
       lg_raise_for_status = raise\<rparr>"
  using Api_request_log[of nt self meth url params ptype hdrs raise w]
  by (auto simp: nth_append)

lemma Api_init_heap:
  "Api_init HttpUrl kw wi = (Inr self, w) \<Longrightarrow>
     heap w (headers self) =
       [(''API-KEY'', SecretStr (api_key self)), (''Content-Type'', Str ''application/json'')]"
  by (auto simp: Api_init_def Let_def split: if_splits)

lemma init_a:
  "Api_init url0 kw_a w0 = (Inr client_a, w_a)"
  by (simp add: w_a_def) (simp add: Api_init_def Let_def err_def any_def w0_def client_a_def kw_a_def)

lemma w_a_eq:
  "w_a = \<lparr>heap = (\<lambda>a. [])(0 := [(''API-KEY'', SecretStr ''key-of-a''),
                                 (''Content-Type'', Str ''application/json'')]),
          next_addr = 1, class_api = (\<lambda>c. None), debug_log = [], sent = []\<rparr>"
  by (simp add: w_a_def Api_init_def Let_def err_def any_def w0_def kw_a_def)

lemma init_b:
  "Api_init url0 kw_b w_a = (Inr client_b, w_ab)"
  by (simp add: w_ab_def) (simp add: Api_init_def Let_def err_def any_def w_a_eq url0_def client_b_def kw_b_def)

lemma w_ab_eq:
  "w_ab = \<lparr>heap = (\<lambda>a. [])(0 := [(''API-KEY'', SecretStr ''key-of-a''),
                                  (''Content-Type'', Str ''application/json'')],
                            1 := [(''API-KEY'', SecretStr ''key-of-b''),
                                  (''Content-Type'', Str ''application/json'')]),
           next_addr = 2, class_api = (\<lambda>c. None), debug_log = [], sent = []\<rparr>"
  by (simp add: w_ab_def Api_init_def Let_def err_def any_def w_a_eq url0_def kw_b_def)

subsection \<open>The instance's header dictionary after a request\<close>

text \<open>
  Claim C10. A call of \<^verbatim>\<open>_request\<close> whose \<^verbatim>\<open>headers\<close> argument is left out or
  falsy works on the instance's own dictionary: after the call that dictionary holds the
  cleartext key under \<^verbatim>\<open>API-KEY\<close> and no other dictionary has changed. On an instance
  as \<^verbatim>\<open>__init__\<close> leaves it, the \<^verbatim>\<open>SecretStr\<close> placeholder is thereby replaced by
  the cleartext. Every later such call starts from the mutated dictionary: it logs it,
  sends it and leaves it as it is.
\<close>

theorem request_stores_cleartext_key:
  "falsy hdrs w \<longrightarrow>
     (let w' = snd (Api_request nt self meth url params ptype hdrs raise w)
      in heap w' (headers self) =
           AList.update ''API-KEY'' (Str (api_key self)) (heap w (headers self))
       \<and> (\<forall>a. a \<noteq> headers self \<longrightarrow> heap w' a = heap w a)
       \<and> (\<forall>HttpUrl kw wi. Api_init HttpUrl kw wi = (Inr self, w) \<longrightarrow>
            heap w (headers self) =
              [(''API-KEY'', SecretStr (api_key self)), (''Content-Type'', Str ''application/json'')]
          \<and> heap w' (headers self) =
              [(''API-KEY'', Str (api_key self)), (''Content-Type'', Str ''application/json'')])
       \<and> (\<forall>nt2 meth2 url2 params2 ptype2 hdrs2 raise2.
            falsy hdrs2 w' \<longrightarrow>
            (let w'' = snd (Api_request nt2 self meth2 url2 params2 ptype2 hdrs2 raise2 w')
             in debug_log w'' ! length (debug_log w') =
                  LogRequest \<lparr>lg_verb = meth2,
                    lg_url = api_host self @ ''/'' @ version self @ ''/'' @ url2,
                    lg_params = params2, lg_params_type = ptype2,
                    lg_headers = heap w' (headers self),
                    lg_raise_for_status = raise2\<rparr>
              \<and> rq_headers (last (sent w'')) = heap w' (headers self)
              \<and> heap w'' = heap w')))"
proof (intro impI)
  assume f: "falsy hdrs w"
  define w' where "w' = snd (Api_request nt self meth url params ptype hdrs raise w)"
  have h: "headers_or hdrs self w = headers self"
    using f by (rule headers_or_falsy)
  have hp: "heap w' = (heap w)(headers self :=
      AList.update ''API-KEY'' (Str (api_key self)) (heap w (headers self)))"
    unfolding w'_def by (simp add: Api_request_heap h)
  have 1: "heap w' (headers self) =
      AList.update ''API-KEY'' (Str (api_key self)) (heap w (headers self))"
    by (simp add: hp)
  have 2: "\<forall>a. a \<noteq> headers self \<longrightarrow> heap w' a = heap w a"
    by (simp add: hp)
  have 3: "\<forall>HttpUrl kw wi. Api_init HttpUrl kw wi = (Inr self, w) \<longrightarrow>
            heap w (headers self) =
              [(''API-KEY'', SecretStr (api_key self)), (''Content-Type'', Str ''application/json'')]
          \<and> heap w' (headers self) =
              [(''API-KEY'', Str (api_key self)), (''Content-Type'', Str ''application/json'')]"
    using Api_init_heap by (auto simp: 1)
  have idem: "AList.update ''API-KEY'' (Str (api_key self)) (heap w' (headers self)) =
      heap w' (headers self)"
    by (simp add: 1)
  have 4: "\<forall>nt2 meth2 url2 params2 ptype2 hdrs2 raise2.
            falsy hdrs2 w' \<longrightarrow>
            (let w'' = snd (Api_request nt2 self meth2 url2 params2 ptype2 hdrs2 raise2 w')
             in debug_log w'' ! length (debug_log w') =
                  LogRequest \<lparr>lg_verb = meth2,
                    lg_url = api_host self @ ''/'' @ version self @ ''/'' @ url2,
                    lg_params = params2, lg_params_type = ptype2,
                    lg_headers = heap w' (headers self),
                    lg_raise_for_status = raise2\<rparr>
              \<and> rq_headers (last (sent w'')) = heap w' (headers self)
              \<and> heap w'' = heap w')"
  proof (intro allI impI)
    fix nt2 meth2 url2 params2 ptype2 hdrs2 raise2
    assume f2: "falsy hdrs2 w'"
    have h2: "headers_or hdrs2 self w' = headers self"
      using f2 by (rule headers_or_falsy)
    show "let w'' = snd (Api_request nt2 self meth2 url2 params2 ptype2 hdrs2 raise2 w')
             in debug_log w'' ! length (debug_log w') =
                  LogRequest \<lparr>lg_verb = meth2,
                    lg_url = api_host self @ ''/'' @ version self @ ''/'' @ url2,
                    lg_params = params2, lg_params_type = ptype2,
                    lg_headers = heap w' (headers self),
                    lg_raise_for_status = raise2\<rparr>
              \<and> rq_headers (last (sent w'')) = heap w' (headers self)
              \<and> heap w'' = heap w'"
      by (simp add: Let_def Api_request_log_nth Api_request_sent Api_request_heap h2 idem)
  qed
  from 1 2 3 4 show "let w' = snd (Api_request nt self meth url params ptype hdrs raise w)
      in heap w' (headers self) =
           AList.update ''API-KEY'' (Str (api_key self)) (heap w (headers self))
       \<and> (\<forall>a. a \<noteq> headers self \<longrightarrow> heap w' a = heap w a)
       \<and> (\<forall>HttpUrl kw wi. Api_init HttpUrl kw wi = (Inr self, w) \<longrightarrow>
            heap w (headers self) =
              [(''API-KEY'', SecretStr (api_key self)), (''Content-Type'', Str ''application/json'')]
          \<and> heap w' (headers self) =
              [(''API-KEY'', Str (api_key self)), (''Content-Type'', Str ''application/json'')])
       \<and> (\<forall>nt2 meth2 url2 params2 ptype2 hdrs2 raise2.
            falsy hdrs2 w' \<longrightarrow>
            (let w'' = snd (Api_request nt2 self meth2 url2 params2 ptype2 hdrs2 raise2 w')
             in debug_log w'' ! length (debug_log w') =
                  LogRequest \<lparr>lg_verb = meth2,
                    lg_url = api_host self @ ''/'' @ version self @ ''/'' @ url2,
                    lg_params = params2, lg_params_type = ptype2,
                    lg_headers = heap w' (headers self),
                    lg_raise_for_status = raise2\<rparr>
              \<and> rq_headers (last (sent w'')) = heap w' (headers self)
              \<and> heap w'' = heap w'))"
    unfolding Let_def w'_def[symmetric] by blast
qed

text \<open>
  The instance of C10 at the second example client: its placeholder, the dictionary
  after one \<^verbatim>\<open>get_orders\<close>-like call, and the log line of the call after that.
\<close>

theorem request_stores_cleartext_key_witness:
  "Api_init url0 kw_b w_a = (Inr client_b, w_ab)
   \<and> falsy None w_ab
   \<and> heap w_ab (headers client_b) =
       [(''API-KEY'', SecretStr ''key-of-b''), (''Content-Type'', Str ''application/json'')]
   \<and> heap (snd (Api_request net0 client_b ''get'' ''orders'' None ''json'' None True w_ab))
         (headers client_b) =
       [(''API-KEY'', Str ''key-of-b''), (''Content-Type'', Str ''application/json'')]
   \<and> debug_log (snd (Api_request net0 client_b ''get'' ''orders/1'' None ''json'' None True
        (snd (Api_request net0 client_b ''get'' ''orders'' None ''json'' None True w_ab)))) ! 2 =
       LogRequest \<lparr>lg_verb = ''get'', lg_url = ''https://api.ioka.kz/v2/orders/1'',
         lg_params = None, lg_params_type = ''json'',
         lg_headers = [(''API-KEY'', Str ''key-of-b''), (''Content-Type'', Str ''application/json'')],
         lg_raise_for_status = True\<rparr>"
proof -
  have i: "Api_init url0 kw_b w_a = (Inr client_b, w_ab)"
    by (rule init_b)
  have f: "falsy None w_ab"
    by (simp add: falsy_def)
  define w' where "w' = snd (Api_request net0 client_b ''get'' ''orders'' None ''json'' None True w_ab)"
  have l: "length (debug_log w') = 2"
    by (simp add: w'_def Api_request_def requests_request_def Let_def net0_def ok200_def
        raise_for_status_def w_ab_eq)
  have f2: "falsy None w'"
    by (simp add: falsy_def)
  have k: "api_key client_b = ''key-of-b''" "api_host client_b = ''https://api.ioka.kz''"
    "version client_b = ''v2''"
    by (simp_all add: client_b_def)
  from request_stores_cleartext_key[of None w_ab net0 client_b "''get''" "''orders''" None "''json''" True]
    f i f2 l k
  show ?thesis
    unfolding Let_def w'_def[symmetric] by (auto simp: falsy_def)
qed

subsection \<open>What the operations send\<close>

lemma upper_verbs: "map upper_char ''post'' = ''POST''" "map upper_char ''get'' = ''GET''"
  by (simp_all add: upper_char_def)

lemma Api_request_fst:
  "fst (Api_request nt self meth url params ptype hdrs raise w) =
     (case nt (sent (snd (Api_request nt self meth url params ptype hdrs raise w))) of
        Inl e \<Rightarrow> Inl e
      | Inr r \<Rightarrow>
          if raise then
            (if 400 \<le> status_code r \<and> status_code r < 600 then Inl (HTTPError r)
             else case json r of None \<Rightarrow> Inl JSONDecodeError | Some j \<Rightarrow> Inr (Json j))
          else Inr (Raw r))"
  by (auto simp add: Api_request_def requests_request_def raise_for_status_def Let_def
      split: prod.splits sum.splits option.splits)

lemma headers_or_None: "headers_or None self w = headers self"
  by (simp add: headers_or_def)

lemma sent_get:
  "sent (snd (Api_request nt self ''get'' path None ''json'' None True w)) =
     sent w @ [request_to self w ''GET'' path None]"
  by (simp add: Api_request_sent request_to_def upper_char_def headers_or_None)

lemma sent_post:
  "d \<noteq> [] \<Longrightarrow>
   sent (snd (Api_request nt self ''post'' path (Some d) ''json'' None True w)) =
     sent w @ [request_to self w ''POST'' path (Some (''json'', d))]"
  by (simp add: Api_request_sent request_to_def upper_char_def headers_or_None)

lemma snd_wrapped: "snd (wrapped wrap rw) = snd rw"
  by (simp add: wrapped_def split: prod.splits sum.splits result.splits)

lemma given_Passed: "given n (Passed x) = [n]" and given_Omitted: "given n Omitted = []"
  by (simp_all add: given_def)

lemma required_Some: "required f k = Some v \<Longrightarrow> \<exists>x. k = Passed x \<and> f x = Some v"
  by (cases k) simp_all

lemma CreateOrder_amount_set:
  "CreateOrder_init HttpUrl m data = Inr r \<Longrightarrow> ''amount'' \<in> set (co_fields_set r)"
  by (cases "kw_amount data")
     (auto simp: CreateOrder_init_def Let_def err_def given_def split: if_splits)

lemma CaptureOrder_amount_set:
  "CaptureOrder_init data = Inr r \<Longrightarrow> ''amount'' \<in> set (cp_fields_set r)"
  by (cases "kw_cp_amount data")
     (auto simp: CaptureOrder_init_def Let_def err_def given_def split: if_splits)

lemma RefundOrder_amount_set:
  "RefundOrder_init data = Inr r \<Longrightarrow> ''amount'' \<in> set (rf_fields_set r)"
  by (cases "kw_rf_amount data")
     (auto simp: RefundOrder_init_def Let_def err_def given_def split: if_splits)

lemma CreateOrder_dict_nonempty:
  "CreateOrder_init HttpUrl m data = Inr r \<Longrightarrow> CreateOrder_dict r \<noteq> []"
  by (drule CreateOrder_amount_set) (simp add: CreateOrder_dict_def exclude_unset_def)

lemma CaptureOrder_dict_nonempty:
  "CaptureOrder_init data = Inr r \<Longrightarrow> CaptureOrder_dict r \<noteq> []"
  by (drule CaptureOrder_amount_set) (simp add: CaptureOrder_dict_def exclude_unset_def)

lemma RefundOrder_dict_nonempty:
  "RefundOrder_init data = Inr r \<Longrightarrow> RefundOrder_dict r \<noteq> []"
  by (drule RefundOrder_amount_set) (simp add: RefundOrder_dict_def exclude_unset_def)

lemma create_order_sent:
  "sent (snd (create_order HttpUrl m nt self data w)) =
     (case CreateOrder_init HttpUrl m data of
        Inl e \<Rightarrow> sent w
      | Inr r \<Rightarrow> sent w @ [request_to self w ''POST'' ''orders'' (Some (''json'', CreateOrder_dict r))])"
  by (simp add: create_order_def sent_post CreateOrder_dict_nonempty split: sum.splits)

lemma capture_order_sent:
  "sent (snd (capture_order nt self oid data w)) =
     (case CaptureOrder_init data of
        Inl e \<Rightarrow> sent w
      | Inr r \<Rightarrow> sent w @ [request_to self w ''POST'' (''orders/'' @ oid @ ''/capture'')
                            (Some (''json'', CaptureOrder_dict r))])"
  by (simp add: capture_order_def sent_post CaptureOrder_dict_nonempty split: sum.splits)

lemma refund_order_sent:
  "sent (snd (refund_order nt self oid data w)) =
     (case RefundOrder_init data of
        Inl e \<Rightarrow> sent w
      | Inr r \<Rightarrow> sent w @ [request_to self w ''POST'' (''orders/'' @ oid @ ''/refunds'')
                            (Some (''json'', RefundOrder_dict r))])"
  by (simp add: refund_order_def sent_post RefundOrder_dict_nonempty split: sum.splits)

lemma CancelOrder_init_no_order_id:
  "kw_cn_order_id data = Omitted \<Longrightarrow>
   CancelOrder_init data =
     Inl (ValidationError (''order_id'' #
       err ''reason'' (required (constr (\<lambda>s. length s \<le> 255)) (kw_cn_reason data))))"
  by (simp add: CancelOrder_init_def Let_def err_def)

lemma cancel_order_fails: "\<exists>e. cancel_order nt self oid data w = (Inl e, w)"
  by (cases "kw_cn_order_id data") (simp_all add: cancel_order_def CancelOrder_init_no_order_id)

lemma cancel_order_sent: "sent (snd (cancel_order nt self oid data w)) = sent w"
  using cancel_order_fails[of nt self oid data w] by auto

text \<open>
  Claim C9 says that every operation sends its request to
  \<^verbatim>\<open>{api_host}/{version}/{path}\<close> with the verb and path of its row of the
  operations table. Eight of the nine operations do: each sends exactly the one request
  of its row once its keywords validate, and none otherwise; in particular the
  \<^verbatim>\<open>capture\<close> method of an \<^verbatim>\<open>Order\<close> instance posts to \<^verbatim>\<open>orders/X/capture\<close>
  for \<open>X\<close> its own \<open>id\<close>, on the client the class is bound to. The row
  \<^verbatim>\<open>POST orders/{order_id}/cancel\<close> is the exception: \<^verbatim>\<open>cancel_order\<close> raises for
  every order id and all keywords, and leaves the world as it was, so the request of
  its row is never sent.
\<close>

theorem operations_follow_table_except_cancel:
  "sent (snd (create_order HttpUrl m nt self co w)) =
     (case CreateOrder_init HttpUrl m co of
        Inl e \<Rightarrow> sent w
      | Inr r \<Rightarrow> sent w @ [request_to self w ''POST'' ''orders'' (Some (''json'', CreateOrder_dict r))])
   \<and> (\<exists>e. cancel_order nt self oid cn w = (Inl e, w))
   \<and> sent (snd (get_orders nt self w)) = sent w @ [request_to self w ''GET'' ''orders'' None]
   \<and> sent (snd (get_order_by_id nt self oid w)) =
       sent w @ [request_to self w ''GET'' (''orders/'' @ oid) None]
   \<and> sent (snd (capture_order nt self oid cp w)) =
     (case CaptureOrder_init cp of
        Inl e \<Rightarrow> sent w
      | Inr r \<Rightarrow> sent w @ [request_to self w ''POST'' (''orders/'' @ oid @ ''/capture'')
                            (Some (''json'', CaptureOrder_dict r))])
   \<and> sent (snd (get_order_events nt self oid w)) =
       sent w @ [request_to self w ''GET'' (''orders/'' @ oid @ ''/events'') None]
   \<and> sent (snd (refund_order nt self oid rf w)) =
     (case RefundOrder_init rf of
        Inl e \<Rightarrow> sent w
      | Inr r \<Rightarrow> sent w @ [request_to self w ''POST'' (''orders/'' @ oid @ ''/refunds'')
                            (Some (''json'', RefundOrder_dict r))])
   \<and> sent (snd (get_refunds nt self oid w)) =
       sent w @ [request_to self w ''GET'' (''orders/'' @ oid @ ''/refunds'') None]
   \<and> sent (snd (get_refund_by_id nt self oid rid w)) =
       sent w @ [request_to self w ''GET'' (''orders/'' @ oid @ ''/refunds/'' @ rid) None]
   \<and> (class_api w Order_cls = Some self \<longrightarrow>
        sent (snd (Order_capture wrap nt ord cp w)) =
          (case CaptureOrder_init cp of
             Inl e \<Rightarrow> sent w
           | Inr r \<Rightarrow> sent w @ [request_to self w ''POST'' (''orders/'' @ ord_id ord @ ''/capture'')
                                 (Some (''json'', CaptureOrder_dict r))]))"
proof -
  have 1: "class_api w Order_cls = Some self \<longrightarrow>
        sent (snd (Order_capture wrap nt ord cp w)) =
          (case CaptureOrder_init cp of
             Inl e \<Rightarrow> sent w
           | Inr r \<Rightarrow> sent w @ [request_to self w ''POST'' (''orders/'' @ ord_id ord @ ''/capture'')
                                 (Some (''json'', CaptureOrder_dict r))])"
    by (simp add: Order_capture_def bound_api_def snd_wrapped capture_order_sent)
  show ?thesis
    using 1 create_order_sent capture_order_sent refund_order_sent
      cancel_order_fails[of nt self oid cn w]
    by (simp add: get_orders_def get_order_by_id_def get_order_events_def get_refunds_def
        get_refund_by_id_def sent_get)
qed

lemma w_bound_a_eq: "w_bound_a = w_ab\<lparr>class_api := (class_api w_ab)(Order_cls := Some client_a)\<rparr>"
  by (simp add: w_bound_a_def Ioka_order_def set_api_def)

lemma w_bound_a_simps:
  "class_api w_bound_a Order_cls = Some client_a"
  "sent w_bound_a = []"
  "debug_log w_bound_a = []"
  "heap w_bound_a 0 = [(''API-KEY'', SecretStr ''key-of-a''), (''Content-Type'', Str ''application/json'')]"
  "heap w_bound_a 1 = [(''API-KEY'', SecretStr ''key-of-b''), (''Content-Type'', Str ''application/json'')]"
  by (simp_all add: w_bound_a_eq w_ab_eq)

lemma client_a_simps:
  "api_host client_a = ''https://stage-api.ioka.kz''" "api_key client_a = ''key-of-a''"
  "version client_a = ''v2''" "headers client_a = 0"
  by (simp_all add: client_a_def)

lemma client_b_simps:
  "api_host client_b = ''https://api.ioka.kz''" "api_key client_b = ''key-of-b''"
  "version client_b = ''v2''" "headers client_b = 1"
  by (simp_all add: client_b_def)

text \<open>
  The repository's test order, id \<^verbatim>\<open>"1"\<close>, on the first example client: captured
  for 50000, which posts to \<^verbatim>\<open>orders/1/capture\<close>, and cancelled with a reason, which
  sends nothing.
\<close>

theorem operations_follow_table_except_cancel_witness:
  "class_api w_bound_a Order_cls = Some client_a
   \<and> sent (snd (Order_capture (\<lambda>j. Inr j) net0 order1
        \<lparr>kw_cp_amount = Passed 50000, kw_cp_reason = Omitted\<rparr> w_bound_a)) =
      [\<lparr>rq_verb = ''POST'', rq_url = ''https://stage-api.ioka.kz/v2/orders/1/capture'',
        rq_headers = [(''API-KEY'', Str ''key-of-a''), (''Content-Type'', Str ''application/json'')],
        rq_params = Some (''json'', [(''amount'', PInt 50000)])\<rparr>]
   \<and> sent (snd (cancel_order net0 client_a ''1''
        \<lparr>kw_cn_order_id = Omitted, kw_cn_reason = Passed ''changed my mind''\<rparr> w_bound_a)) = []
   \<and> isl (fst (cancel_order net0 client_a ''1''
        \<lparr>kw_cn_order_id = Omitted, kw_cn_reason = Passed ''changed my mind''\<rparr> w_bound_a))"
proof -
  have c: "class_api w_bound_a Order_cls = Some client_a"
    by (simp add: w_bound_a_simps)
  have v: "CaptureOrder_init \<lparr>kw_cp_amount = Passed 50000, kw_cp_reason = Omitted\<rparr> =
      Inr \<lparr>cp_amount = 50000, cp_reason = None, cp_fields_set = [''amount'']\<rparr>"
    by (simp add: CaptureOrder_init_def Let_def err_def constr_def optional_def given_def)
  note t = operations_follow_table_except_cancel[where self = client_a and w = w_bound_a
        and ord = order1 and cp = "\<lparr>kw_cp_amount = Passed 50000, kw_cp_reason = Omitted\<rparr>"
        and wrap = "\<lambda>j. Inr j" and nt = net0 and oid = "''1''"
        and cn = "\<lparr>kw_cn_order_id = Omitted, kw_cn_reason = Passed ''changed my mind''\<rparr>"]
  from t have "class_api w_bound_a Order_cls = Some client_a \<longrightarrow>
        sent (snd (Order_capture (\<lambda>j. Inr j) net0 order1
           \<lparr>kw_cp_amount = Passed 50000, kw_cp_reason = Omitted\<rparr> w_bound_a)) =
          (case CaptureOrder_init \<lparr>kw_cp_amount = Passed 50000, kw_cp_reason = Omitted\<rparr> of
             Inl e \<Rightarrow> sent w_bound_a
           | Inr r \<Rightarrow> sent w_bound_a @
               [request_to client_a w_bound_a ''POST'' (''orders/'' @ ord_id order1 @ ''/capture'')
                  (Some (''json'', CaptureOrder_dict r))])"
    by blast
  with c have 1: "sent (snd (Order_capture (\<lambda>j. Inr j) net0 order1
        \<lparr>kw_cp_amount = Passed 50000, kw_cp_reason = Omitted\<rparr> w_bound_a)) =
      [\<lparr>rq_verb = ''POST'', rq_url = ''https://stage-api.ioka.kz/v2/orders/1/capture'',
        rq_headers = [(''API-KEY'', Str ''key-of-a''), (''Content-Type'', Str ''application/json'')],
        rq_params = Some (''json'', [(''amount'', PInt 50000)])\<rparr>]"
    by (simp add: v request_to_def CaptureOrder_dict_def exclude_unset_def w_bound_a_simps
        client_a_simps order1_def)
  from t obtain e where "cancel_order net0 client_a ''1''
        \<lparr>kw_cn_order_id = Omitted, kw_cn_reason = Passed ''changed my mind''\<rparr> w_bound_a
      = (Inl e, w_bound_a)"
    by blast
  then have 2: "sent (snd (cancel_order net0 client_a ''1''
        \<lparr>kw_cn_order_id = Omitted, kw_cn_reason = Passed ''changed my mind''\<rparr> w_bound_a)) = []"
    "isl (fst (cancel_order net0 client_a ''1''
        \<lparr>kw_cn_order_id = Omitted, kw_cn_reason = Passed ''changed my mind''\<rparr> w_bound_a))"
    by (simp_all add: w_bound_a_simps)
  from c 1 2 show ?thesis by simp
qed

subsection \<open>\<^verbatim>\<open>cancel_order\<close>\<close>

text \<open>
  Claim C3 says that cancelling with an order id and a reason of at most 255 characters
  validates and posts to \<^verbatim>\<open>orders/{oid}/cancel\<close>. The code does not: the order id is
  bound to the parameter, \<^verbatim>\<open>CancelOrder(**data)\<close> is built without its required
  \<open>order_id\<close>, and the call ends in a \<^verbatim>\<open>ValidationError\<close> for that field with
  nothing logged or sent, directly and through \<^verbatim>\<open>Order.cancel\<close> alike.
\<close>

theorem cancel_order_raises_validation_error:
  "length r \<le> 255 \<longrightarrow>
     cancel_order nt self oid \<lparr>kw_cn_order_id = Omitted, kw_cn_reason = Passed r\<rparr> w =
       (Inl (ValidationError [''order_id'']), w)
   \<and> (class_api w c = Some self \<longrightarrow>
        Order_cancel wrap nt c \<lparr>kw_cn_order_id = Passed oid, kw_cn_reason = Passed r\<rparr> w =
          (Inl (ValidationError [''order_id'']), w))"
  by (simp add: cancel_order_def Order_cancel_def bound_api_def wrapped_def
      CancelOrder_init_no_order_id err_def constr_def)

theorem cancel_order_raises_validation_error_witness:
  "length ''changed my mind'' \<le> 255
   \<and> cancel_order net0 client_a ''1''
       \<lparr>kw_cn_order_id = Omitted, kw_cn_reason = Passed ''changed my mind''\<rparr> w_bound_a =
       (Inl (ValidationError [''order_id'']), w_bound_a)
   \<and> class_api w_bound_a Order_cls = Some client_a
   \<and> Order_cancel (\<lambda>j. Inr j) net0 Order_cls
       \<lparr>kw_cn_order_id = Passed ''1'', kw_cn_reason = Passed ''changed my mind''\<rparr> w_bound_a =
       (Inl (ValidationError [''order_id'']), w_bound_a)"
  using cancel_order_raises_validation_error[of "''changed my mind''" net0 client_a "''1''"
      w_bound_a Order_cls "\<lambda>j. Inr j"]
  by (simp add: w_bound_a_simps)

subsection \<open>Status handling in \<^verbatim>\<open>_request\<close>\<close>

lemma Api_request_answer:
  "fst (Api_request (answer r) self meth url params ptype hdrs raise w) =
     (if raise then
        (if 400 \<le> status_code r \<and> status_code r < 600 then Inl (HTTPError r)
         else case json r of None \<Rightarrow> Inl JSONDecodeError | Some j \<Rightarrow> Inr (Json j))
      else Inr (Raw r))"
  by (simp add: Api_request_fst answer_def)

text \<open>
  Claim C7 as stated fails. With \<^verbatim>\<open>raise_for_status\<close> true, a status outside 2xx
  need not end in an \<^verbatim>\<open>HTTPError\<close>: 304 with its empty body ends in the JSON decode
  error, 300 with a JSON body returns that body; and a 2xx status need not return JSON:
  204 with its empty body ends in the decode error.
\<close>

theorem status_outside_2xx_counterexample:
  "status_code not_modified = 304
   \<and> fst (Api_request (answer not_modified) client_a ''get'' ''orders'' None ''json'' None True w_ab)
       = Inl JSONDecodeError
   \<and> status_code multiple_choices = 300
   \<and> fst (Api_request (answer multiple_choices) client_a ''get'' ''orders'' None ''json'' None True w_ab)
       = Inr (Json (PList []))
   \<and> status_code no_content = 204
   \<and> fst (Api_request (answer no_content) client_a ''get'' ''orders'' None ''json'' None True w_ab)
       = Inl JSONDecodeError"
  by (simp add: Api_request_answer not_modified_def multiple_choices_def no_content_def)

text \<open>
  Claim C7, amended. Let the transport answer the call with a response. With
  \<^verbatim>\<open>raise_for_status\<close> true, a status from 400 to 599 makes the call fail with an
  \<^verbatim>\<open>HTTPError\<close> that carries the response (so its status and body); any other status
  makes it return the parsed JSON body, or fail with the JSON decode error when the body
  is not JSON. With \<^verbatim>\<open>raise_for_status\<close> false the raw response is returned as it
  is, whatever the status. An error of the transport is passed on.
\<close>

theorem request_status_handling:
  "(let res = Api_request nt self meth url params ptype hdrs raise w;
        reply = nt (sent (snd res))
    in (\<forall>r. reply = Inr r \<and> raise \<and> 400 \<le> status_code r \<and> status_code r < 600 \<longrightarrow>
            fst res = Inl (HTTPError r))
     \<and> (\<forall>r j. reply = Inr r \<and> raise \<and> \<not> (400 \<le> status_code r \<and> status_code r < 600)
              \<and> json r = Some j \<longrightarrow>
            fst res = Inr (Json j))
     \<and> (\<forall>r. reply = Inr r \<and> raise \<and> \<not> (400 \<le> status_code r \<and> status_code r < 600)
            \<and> json r = None \<longrightarrow>
            fst res = Inl JSONDecodeError)
     \<and> (\<forall>r. reply = Inr r \<and> \<not> raise \<longrightarrow> fst res = Inr (Raw r))
     \<and> (\<forall>e. reply = Inl e \<longrightarrow> fst res = Inl e))"
proof -
  define res where "res = Api_request nt self meth url params ptype hdrs raise w"
  define reply where "reply = nt (sent (snd res))"
  have f: "fst res =
     (case reply of
        Inl e \<Rightarrow> Inl e
      | Inr r \<Rightarrow>
          if raise then
            (if 400 \<le> status_code r \<and> status_code r < 600 then Inl (HTTPError r)
             else case json r of None \<Rightarrow> Inl JSONDecodeError | Some j \<Rightarrow> Inr (Json j))
          else Inr (Raw r))"
    unfolding res_def reply_def by (rule Api_request_fst)
  show ?thesis
    unfolding Let_def res_def[symmetric] reply_def[symmetric]
    by (cases reply) (auto simp: f)
qed

text \<open>The four cases of C7 on the first example client: 404, 200, 204, and 404 unraised.\<close>

theorem request_status_handling_witness:
  "fst (Api_request (answer not_found) client_a ''get'' ''orders/7'' None ''json'' None True w_ab)
       = Inl (HTTPError not_found)
   \<and> fst (Api_request (answer ok200) client_a ''get'' ''orders/7'' None ''json'' None True w_ab)
       = Inr (Json (PDict []))
   \<and> fst (Api_request (answer no_content) client_a ''get'' ''orders/7'' None ''json'' None True w_ab)
       = Inl JSONDecodeError
   \<and> fst (Api_request (answer not_found) client_a ''get'' ''orders/7'' None ''json'' None False w_ab)
       = Inr (Raw not_found)"
proof -
  have a: "\<And>r rqs. answer r rqs = Inr r"
    by (simp add: answer_def)
  have s: "status_code not_found = 404" "status_code ok200 = 200" "json ok200 = Some (PDict [])"
    "status_code no_content = 204" "json no_content = None"
    by (simp_all add: not_found_def ok200_def no_content_def)
  from request_status_handling[of "answer not_found" client_a "''get''" "''orders/7''" None "''json''" None True w_ab]
  have 1: "fst (Api_request (answer not_found) client_a ''get'' ''orders/7'' None ''json'' None True w_ab)
       = Inl (HTTPError not_found)"
    unfolding Let_def by (simp add: a s)
  from request_status_handling[of "answer ok200" client_a "''get''" "''orders/7''" None "''json''" None True w_ab]
  have 2: "fst (Api_request (answer ok200) client_a ''get'' ''orders/7'' None ''json'' None True w_ab)
       = Inr (Json (PDict []))"
    unfolding Let_def by (simp add: a s)
  from request_status_handling[of "answer no_content" client_a "''get''" "''orders/7''" None "''json''" None True w_ab]
  have 3: "fst (Api_request (answer no_content) client_a ''get'' ''orders/7'' None ''json'' None True w_ab)
       = Inl JSONDecodeError"
    unfolding Let_def by (simp add: a s)
  from request_status_handling[of "answer not_found" client_a "''get''" "''orders/7''" None "''json''" None False w_ab]
  have 4: "fst (Api_request (answer not_found) client_a ''get'' ''orders/7'' None ''json'' None False w_ab)
       = Inr (Raw not_found)"
    unfolding Let_def by (simp add: a s)
  from 1 2 3 4 show ?thesis by simp
qed

subsection \<open>Validation of the request records and their payloads\<close>

lemma in_given: "x \<in> set (given n k) \<longleftrightarrow> x = n \<and> k \<noteq> Omitted"
  by (cases k) (auto simp: given_def)

lemma exclude_unset_step:
  "n \<notin> set fs \<Longrightarrow> n \<notin> fst ` set d \<Longrightarrow>
   exclude_unset (given n k @ fs) ((n, v) # d) = entry n k v @ exclude_unset fs d"
proof (cases k)
  case Omitted
  assume "n \<notin> set fs"
  with Omitted show ?thesis
    by (simp add: exclude_unset_def given_def entry_def)
next
  case (Passed x)
  assume "n \<notin> fst ` set d"
  then have "filter (\<lambda>(k, v). k = n \<or> k \<in> set fs) d = filter (\<lambda>(k, v). k \<in> set fs) d"
    by (intro filter_cong) (auto simp: image_iff)
  with Passed show ?thesis
    by (simp add: exclude_unset_def given_def entry_def)
qed

lemma exclude_unset_last: "exclude_unset (given n k) [(n, v)] = entry n k v"
  by (cases k) (simp_all add: exclude_unset_def given_def entry_def)

lemma map_fst_entry: "map fst (entry n k v) = given n k"
  by (cases k) (simp_all add: entry_def given_def)

lemma map_of_entry:
  "map_of (entry n k v @ d) x = (if x = n \<and> k \<noteq> Omitted then Some v else map_of d x)"
  by (cases k) (simp_all add: entry_def)

lemma required_constr: "(\<exists>y. required (constr P) k = Some y) \<longleftrightarrow> (\<exists>x. k = Passed x \<and> P x)"
  by (cases k) (simp_all add: constr_def)

lemma required_any: "(\<exists>y. required any k = Some y) \<longleftrightarrow> (\<exists>x. k = Passed x)"
  by (cases k) (simp_all add: any_def)

lemma with_default_constr:
  "(\<exists>y. with_default d (constr P) k = Some y) \<longleftrightarrow> (\<forall>x. k = Passed x \<longrightarrow> P x)"
  by (cases k) (simp_all add: constr_def)

lemma optional_constr:
  "(\<exists>y. optional (constr P) k = Some y) \<longleftrightarrow> (\<forall>x. k = Passed (Some x) \<longrightarrow> P x)"
proof (cases k)
  case Omitted
  then show ?thesis by (simp add: optional_def)
next
  case (Passed v)
  then show ?thesis by (cases v) (simp_all add: optional_def constr_def)
qed

lemma optional_any: "(\<exists>y. optional any k = Some y) \<longleftrightarrow> True"
proof (cases k)
  case Omitted
  then show ?thesis by (simp add: optional_def)
next
  case (Passed v)
  then show ?thesis by (cases v) (simp_all add: optional_def any_def)
qed

lemma optional_ok:
  "(\<exists>y. optional f k = Some y) \<longleftrightarrow> (\<forall>x. k = Passed (Some x) \<longrightarrow> (\<exists>y. f x = Some y))"
proof (cases k)
  case Omitted
  then show ?thesis by (simp add: optional_def)
next
  case (Passed v)
  then show ?thesis by (cases v) (simp_all add: optional_def)
qed

lemma default_allow_none:
  "(\<exists>y. with_default d (allow_none f) k = Some y) \<longleftrightarrow>
     (\<forall>x. k = Passed (Some x) \<longrightarrow> (\<exists>y. f x = Some y))"
proof (cases k)
  case Omitted
  then show ?thesis by simp
next
  case (Passed v)
  then show ?thesis by (cases v) simp_all
qed

lemma constr_ok: "constr P x \<noteq> None \<longleftrightarrow> P x" and any_ok: "any x \<noteq> None"
  by (simp_all add: constr_def any_def)

lemma the_required: "k = Passed x \<Longrightarrow> f x = Some y \<Longrightarrow> the (required f k) = y"
  by simp

lemma the_with_default:
  "with_default d (constr P) k \<noteq> None \<Longrightarrow>
   the (with_default d (constr P) k) = (case k of Omitted \<Rightarrow> d | Passed x \<Rightarrow> x)"
  by (cases k) (simp_all add: constr_def split: if_splits)

lemma the_required_constr:
  "required (constr P) k \<noteq> None \<Longrightarrow> k = Passed (the (required (constr P) k))"
  by (cases k) (simp_all add: constr_def split: if_splits)

lemma the_required_any:
  "required any k \<noteq> None \<Longrightarrow> k = Passed (the (required any k))"
  by (cases k) (simp_all add: any_def)

lemma the_optional:
  "optional f k \<noteq> None \<Longrightarrow>
   the (optional f k) =
     (case k of Omitted \<Rightarrow> None | Passed None \<Rightarrow> None | Passed (Some x) \<Rightarrow> f x)"
proof (cases k)
  case Omitted
  then show ?thesis by (simp add: optional_def)
next
  case (Passed v)
  assume "optional f k \<noteq> None"
  with Passed show ?thesis by (cases v) (auto simp: optional_def)
qed

lemma the_optional_constr:
  "optional (constr P) k \<noteq> None \<Longrightarrow>
   the (optional (constr P) k) = (case k of Omitted \<Rightarrow> None | Passed v \<Rightarrow> v)"
proof (cases k)
  case Omitted
  then show ?thesis by (simp add: optional_def)
next
  case (Passed v)
  assume "optional (constr P) k \<noteq> None"
  with Passed show ?thesis by (cases v) (auto simp: optional_def constr_def split: if_splits)
qed

lemma the_optional_any:
  "the (optional any k) = (case k of Omitted \<Rightarrow> None | Passed v \<Rightarrow> v)"
proof (cases k)
  case Omitted
  then show ?thesis by (simp add: optional_def)
next
  case (Passed v)
  then show ?thesis by (cases v) (auto simp: optional_def any_def)
qed

lemma len4: "4 \<le> n \<and> n \<le> 4 \<longleftrightarrow> n = (4::nat)"
  by auto

lemma validation_result:
  "(if errs \<noteq> [] then Inl (ValidationError errs) else Inr x) = Inr r \<longleftrightarrow> errs = [] \<and> x = r"
  by simp

lemma CreateOrder_init_Inr:
  "CreateOrder_init HttpUrl m kw = Inr r \<longleftrightarrow>
     (\<exists>a. kw_amount kw = Passed a \<and> 100 \<le> a)
   \<and> (\<forall>c. kw_currency kw = Passed (Some c) \<longrightarrow> c \<in> set CurrencyEnum)
   \<and> (\<forall>c. kw_capture_method kw = Passed (Some c) \<longrightarrow> c \<in> set CaptureMethodEnum)
   \<and> (\<forall>s. kw_external_id kw = Passed s \<longrightarrow> 1 \<le> length s)
   \<and> (\<forall>s. kw_mcc kw = Passed (Some s) \<longrightarrow> length s = 4)
   \<and> (\<forall>n. kw_attempts kw = Passed n \<longrightarrow> 1 \<le> n \<and> n \<le> 50)
   \<and> (\<forall>s. kw_customer_id kw = Passed (Some s) \<longrightarrow> 1 \<le> length s)
   \<and> (\<forall>s. kw_card_id kw = Passed (Some s) \<longrightarrow> 1 \<le> length s)
   \<and> (\<forall>u. kw_back_url kw = Passed (Some u) \<longrightarrow> HttpUrl u \<noteq> None)
   \<and> (\<forall>u. kw_success_url kw = Passed (Some u) \<longrightarrow> HttpUrl u \<noteq> None)
   \<and> (\<forall>u. kw_failure_url kw = Passed (Some u) \<longrightarrow> HttpUrl u \<noteq> None)
   \<and> r = \<lparr>co_amount = the (required (constr (\<lambda>n. 100 \<le> n)) (kw_amount kw)),
           co_currency = (case kw_currency kw of Omitted \<Rightarrow> None | Passed v \<Rightarrow> v),
           co_capture_method = (case kw_capture_method kw of Omitted \<Rightarrow> None | Passed v \<Rightarrow> v),
           co_external_id =
             (case kw_external_id kw of Omitted \<Rightarrow> external_id_default m | Passed s \<Rightarrow> s),
           co_description = (case kw_description kw of Omitted \<Rightarrow> None | Passed v \<Rightarrow> v),
           co_mcc = (case kw_mcc kw of Omitted \<Rightarrow> None | Passed v \<Rightarrow> v),
           co_extra_info = (case kw_extra_info kw of Omitted \<Rightarrow> None | Passed v \<Rightarrow> v),
           co_attempts = (case kw_attempts kw of Omitted \<Rightarrow> 10 | Passed n \<Rightarrow> n),
           co_due_date = (case kw_due_date kw of Omitted \<Rightarrow> None | Passed v \<Rightarrow> v),
           co_customer_id = (case kw_customer_id kw of Omitted \<Rightarrow> None | Passed v \<Rightarrow> v),
           co_card_id = (case kw_card_id kw of Omitted \<Rightarrow> None | Passed v \<Rightarrow> v),
           co_back_url = (case kw_back_url kw of Passed (Some u) \<Rightarrow> HttpUrl u | _ \<Rightarrow> None),
           co_success_url = (case kw_success_url kw of Passed (Some u) \<Rightarrow> HttpUrl u | _ \<Rightarrow> None),
           co_failure_url = (case kw_failure_url kw of Passed (Some u) \<Rightarrow> HttpUrl u | _ \<Rightarrow> None),
           co_template = (case kw_template kw of Omitted \<Rightarrow> None | Passed v \<Rightarrow> v),
           co_fields_set =
                  given ''amount'' (kw_amount kw) @ given ''currency'' (kw_currency kw)
                  @ given ''capture_method'' (kw_capture_method kw)
                  @ given ''external_id'' (kw_external_id kw)
                  @ given ''description'' (kw_description kw) @ given ''mcc'' (kw_mcc kw)
                  @ given ''extra_info'' (kw_extra_info kw)
                  @ given ''attempts'' (kw_attempts kw) @ given ''due_date'' (kw_due_date kw)
                  @ given ''customer_id'' (kw_customer_id kw)
                  @ given ''card_id'' (kw_card_id kw) @ given ''back_url'' (kw_back_url kw)
                  @ given ''success_url'' (kw_success_url kw)
                  @ given ''failure_url'' (kw_failure_url kw)
                  @ given ''template'' (kw_template kw)\<rparr>"
  (is "?L \<longleftrightarrow> ?R")
proof
  assume ?L
  then show ?R
    unfolding CreateOrder_init_def Let_def validation_result
    apply (simp only: append_is_Nil_conv err_Nil_iff)
    apply (elim conjE)
    apply (simp add: the_optional_constr the_optional_any the_with_default the_optional[of HttpUrl])
    apply (simp_all add: required_constr with_default_constr optional_constr optional_any optional_ok[of HttpUrl] len4)
    done
next
  assume ?R
  then show ?L
    unfolding CreateOrder_init_def Let_def validation_result
    apply (simp only: append_is_Nil_conv err_Nil_iff)
    apply (elim conjE)
    apply (simp add: the_optional_constr the_optional_any the_with_default the_optional[of HttpUrl]
        required_constr with_default_constr optional_constr optional_any optional_ok[of HttpUrl] len4)
    done
qed

lemma the_required_constr':
  "(\<exists>y. required (constr P) k = Some y) \<Longrightarrow> k = Passed (the (required (constr P) k))"
  by (cases k) (simp_all add: constr_def split: if_splits)

lemma the_required_any':
  "(\<exists>y. required any k = Some y) \<Longrightarrow> k = Passed (the (required any k))"
  by (cases k) (simp_all add: any_def)

lemma the_default_allow_none:
  "(\<exists>y. with_default d (allow_none (constr P)) k = Some y) \<Longrightarrow>
   the (with_default d (allow_none (constr P)) k) = (case k of Omitted \<Rightarrow> d | Passed v \<Rightarrow> v)"
proof (cases k)
  case Omitted
  then show ?thesis by simp
next
  case (Passed v)
  assume "\<exists>y. with_default d (allow_none (constr P)) k = Some y"
  with Passed show ?thesis by (cases v) (auto simp: constr_def split: if_splits)
qed

lemma the_default_allow_none_any:
  "the (with_default d (allow_none any) k) = (case k of Omitted \<Rightarrow> d | Passed v \<Rightarrow> v)"
proof (cases k)
  case Omitted
  then show ?thesis by simp
next
  case (Passed v)
  then show ?thesis by (cases v) (auto simp: any_def)
qed

lemma default_allow_none_constr:
  "(\<exists>y. with_default d (allow_none (constr P)) k = Some y) \<longleftrightarrow>
     (\<forall>x. k = Passed (Some x) \<longrightarrow> P x)"
  by (auto simp add: default_allow_none constr_def)

lemma default_allow_none_any: "(\<exists>y. with_default d (allow_none any) k = Some y) \<longleftrightarrow> True"
  by (simp add: default_allow_none any_def)

lemma CancelOrder_init_Inr:
  "CancelOrder_init kw = Inr r \<longleftrightarrow>
     (\<exists>i. kw_cn_order_id kw = Passed i)
   \<and> (\<exists>s. kw_cn_reason kw = Passed s \<and> length s \<le> 255)
   \<and> r = \<lparr>cn_order_id = the (required any (kw_cn_order_id kw)),
           cn_reason = the (required (constr (\<lambda>s. length s \<le> 255)) (kw_cn_reason kw)),
           cn_fields_set = [''order_id'', ''reason'']\<rparr>"
  by (cases "kw_cn_order_id kw"; cases "kw_cn_reason kw")
     (auto simp: CancelOrder_init_def Let_def err_def given_def constr_def any_def)

lemma CaptureOrder_init_Inr:
  "CaptureOrder_init kw = Inr r \<longleftrightarrow>
     (\<exists>a. kw_cp_amount kw = Passed a \<and> 100 \<le> a)
   \<and> (\<forall>s. kw_cp_reason kw = Passed (Some s) \<longrightarrow> length s \<le> 255)
   \<and> r = \<lparr>cp_amount = the (required (constr (\<lambda>n. 100 \<le> n)) (kw_cp_amount kw)),
           cp_reason = (case kw_cp_reason kw of Omitted \<Rightarrow> None | Passed v \<Rightarrow> v),
           cp_fields_set = given ''amount'' (kw_cp_amount kw) @ given ''reason'' (kw_cp_reason kw)\<rparr>"
  (is "?L \<longleftrightarrow> ?R")
proof
  assume ?L
  then show ?R
    unfolding CaptureOrder_init_def Let_def validation_result
    apply (simp only: append_is_Nil_conv err_Nil_iff)
    apply (elim conjE)
    apply (simp add: the_optional_constr)
    apply (simp_all add: required_constr optional_constr)
    done
next
  assume ?R
  then show ?L
    unfolding CaptureOrder_init_def Let_def validation_result
    apply (simp only: append_is_Nil_conv err_Nil_iff)
    apply (elim conjE)
    apply (simp add: the_optional_constr required_constr optional_constr)
    done
qed

lemma RefundRule_init_Inr:
  "RefundRule_init kw = Inr r \<longleftrightarrow>
     (\<exists>a. kw_rr_account_id kw = Passed a) \<and> (\<exists>n. kw_rr_amount kw = Passed n)
   \<and> r = \<lparr>rr_account_id = the (required any (kw_rr_account_id kw)),
           rr_amount = the (required any (kw_rr_amount kw)),
           rr_fields_set = [''account_id'', ''amount'']\<rparr>"
  by (cases "kw_rr_account_id kw"; cases "kw_rr_amount kw")
     (auto simp: RefundRule_init_def Let_def err_def given_def any_def)

lemma CheckPosition_init_Inr:
  "CheckPosition_init kw = Inr r \<longleftrightarrow>
     (\<exists>a. kw_ps_name kw = Passed a) \<and> (\<exists>n. kw_ps_amount kw = Passed n)
   \<and> (\<exists>n. kw_ps_count kw = Passed n)
   \<and> (\<forall>t. kw_ps_tax_type kw = Passed (Some t) \<longrightarrow> t \<in> set OperationTypeEnum)
   \<and> r = \<lparr>ps_name = the (required any (kw_ps_name kw)),
           ps_amount = the (required any (kw_ps_amount kw)),
           ps_count = the (required any (kw_ps_count kw)),
           ps_section = (case kw_ps_section kw of Omitted \<Rightarrow> None | Passed v \<Rightarrow> v),
           ps_tax_percent = (case kw_ps_tax_percent kw of Omitted \<Rightarrow> Some 0 | Passed v \<Rightarrow> v),
           ps_tax_type = (case kw_ps_tax_type kw of Omitted \<Rightarrow> Some 0 | Passed v \<Rightarrow> v),
           ps_tax_amount = (case kw_ps_tax_amount kw of Omitted \<Rightarrow> Some 0 | Passed v \<Rightarrow> v),
           ps_unit_code = (case kw_ps_unit_code kw of Omitted \<Rightarrow> Some 0 | Passed v \<Rightarrow> v),
           ps_fields_set =
                  given ''name'' (kw_ps_name kw) @ given ''amount'' (kw_ps_amount kw)
                  @ given ''count'' (kw_ps_count kw) @ given ''section'' (kw_ps_section kw)
                  @ given ''tax_percent'' (kw_ps_tax_percent kw)
                  @ given ''tax_type'' (kw_ps_tax_type kw)
                  @ given ''tax_amount'' (kw_ps_tax_amount kw)
                  @ given ''unit_code'' (kw_ps_unit_code kw)\<rparr>"
  (is "?L \<longleftrightarrow> ?R")
proof
  assume ?L
  then show ?R
    unfolding CheckPosition_init_def Let_def validation_result
    apply (simp only: append_is_Nil_conv err_Nil_iff)
    apply (elim conjE)
    apply (simp add: the_optional_any the_default_allow_none the_default_allow_none_any)
    apply (simp_all add: required_any default_allow_none_constr)
    done
next
  assume ?R
  then show ?L
    unfolding CheckPosition_init_def Let_def validation_result
    apply (simp only: append_is_Nil_conv err_Nil_iff)
    apply (elim conjE)
    apply (simp add: the_optional_any the_default_allow_none the_default_allow_none_any
        required_any default_allow_none_constr default_allow_none_any optional_any)
    done
qed

lemma each_Some: "(\<exists>ys. each f xs = Some ys) \<longleftrightarrow> (\<forall>x\<in>set xs. \<exists>y. f x = Inr y)"
  by (induction xs) (auto split: sum.splits option.splits)

lemma RefundOrder_init_Inr:
  "RefundOrder_init kw = Inr r \<longleftrightarrow>
     (\<exists>a. kw_rf_amount kw = Passed a \<and> 100 \<le> a)
   \<and> (\<forall>s. kw_rf_reason kw = Passed (Some s) \<longrightarrow> length s \<le> 255)
   \<and> (\<forall>xs. kw_rf_rules kw = Passed (Some xs) \<longrightarrow> (\<forall>x\<in>set xs. \<exists>y. RefundRule_init x = Inr y))
   \<and> (\<forall>xs. kw_rf_positions kw = Passed (Some xs) \<longrightarrow>
         (\<forall>x\<in>set xs. \<exists>y. CheckPosition_init x = Inr y))
   \<and> r = \<lparr>rf_amount = the (required (constr (\<lambda>n. 100 \<le> n)) (kw_rf_amount kw)),
           rf_reason = (case kw_rf_reason kw of Omitted \<Rightarrow> None | Passed v \<Rightarrow> v),
           rf_rules = (case kw_rf_rules kw of Passed (Some xs) \<Rightarrow> each RefundRule_init xs
                       | _ \<Rightarrow> None),
           rf_positions = (case kw_rf_positions kw of
                             Passed (Some xs) \<Rightarrow> each CheckPosition_init xs | _ \<Rightarrow> None),
           rf_fields_set =
                  given ''amount'' (kw_rf_amount kw) @ given ''reason'' (kw_rf_reason kw)
                  @ given ''rules'' (kw_rf_rules kw)
                  @ given ''positions'' (kw_rf_positions kw)\<rparr>"
  (is "?L \<longleftrightarrow> ?R")
proof
  assume ?L
  then show ?R
    unfolding RefundOrder_init_def Let_def validation_result
    apply (simp only: append_is_Nil_conv err_Nil_iff)
    apply (elim conjE)
    apply (simp add: the_optional_constr the_optional[of "each RefundRule_init"]
        the_optional[of "each CheckPosition_init"])
    apply (simp_all add: required_constr optional_constr optional_ok[of "each RefundRule_init"]
        optional_ok[of "each CheckPosition_init"] each_Some)
    done
next
  assume ?R
  then show ?L
    unfolding RefundOrder_init_def Let_def validation_result
    apply (simp only: append_is_Nil_conv err_Nil_iff)
    apply (elim conjE)
    apply (simp add: the_optional_constr the_optional[of "each RefundRule_init"]
        the_optional[of "each CheckPosition_init"]
        required_constr optional_constr optional_ok[of "each RefundRule_init"]
        optional_ok[of "each CheckPosition_init"] each_Some)
    done
qed

lemma validation_error:
  "(if errs \<noteq> [] then Inl (ValidationError errs) else Inr x) = Inl e \<Longrightarrow>
   \<exists>errs. errs \<noteq> [] \<and> e = ValidationError errs"
  by (auto split: if_splits)

lemma init_Inl:
  "CreateOrder_init HttpUrl m co = Inl e \<Longrightarrow> \<exists>errs. errs \<noteq> [] \<and> e = ValidationError errs"
  "CancelOrder_init cn = Inl e \<Longrightarrow> \<exists>errs. errs \<noteq> [] \<and> e = ValidationError errs"
  "CaptureOrder_init cp = Inl e \<Longrightarrow> \<exists>errs. errs \<noteq> [] \<and> e = ValidationError errs"
  "RefundOrder_init rf = Inl e \<Longrightarrow> \<exists>errs. errs \<noteq> [] \<and> e = ValidationError errs"
  unfolding CreateOrder_init_def CancelOrder_init_def CaptureOrder_init_def
    RefundOrder_init_def Let_def
  by (erule validation_error)+

lemma in_entry: "x \<in> fst ` set (entry n k v) \<longleftrightarrow> x = n \<and> k \<noteq> Omitted"
  by (cases k) (auto simp: entry_def)

lemma CreateOrder_dict_entries:
  assumes "CreateOrder_init HttpUrl m kw = Inr r"
  shows "CreateOrder_dict r =
       entry ''amount'' (kw_amount kw) (PInt (co_amount r))
     @ entry ''currency'' (kw_currency kw) (py_opt PStr (co_currency r))
     @ entry ''capture_method'' (kw_capture_method kw) (py_opt PStr (co_capture_method r))
     @ entry ''external_id'' (kw_external_id kw) (PStr (co_external_id r))
     @ entry ''description'' (kw_description kw) (py_opt PStr (co_description r))
     @ entry ''mcc'' (kw_mcc kw) (py_opt PStr (co_mcc r))
     @ entry ''extra_info'' (kw_extra_info kw) (py_opt PDict (co_extra_info r))
     @ entry ''attempts'' (kw_attempts kw) (PInt (co_attempts r))
     @ entry ''due_date'' (kw_due_date kw) (py_opt PStr (co_due_date r))
     @ entry ''customer_id'' (kw_customer_id kw) (py_opt PStr (co_customer_id r))
     @ entry ''card_id'' (kw_card_id kw) (py_opt PStr (co_card_id r))
     @ entry ''back_url'' (kw_back_url kw) (py_opt PStr (co_back_url r))
     @ entry ''success_url'' (kw_success_url kw) (py_opt PStr (co_success_url r))
     @ entry ''failure_url'' (kw_failure_url kw) (py_opt PStr (co_failure_url r))
     @ entry ''template'' (kw_template kw) (py_opt PStr (co_template r))"
proof -
  from assms have "co_fields_set r =
                  given ''amount'' (kw_amount kw) @ given ''currency'' (kw_currency kw)
                  @ given ''capture_method'' (kw_capture_method kw)
                  @ given ''external_id'' (kw_external_id kw)
                  @ given ''description'' (kw_description kw) @ given ''mcc'' (kw_mcc kw)
                  @ given ''extra_info'' (kw_extra_info kw)
                  @ given ''attempts'' (kw_attempts kw) @ given ''due_date'' (kw_due_date kw)
                  @ given ''customer_id'' (kw_customer_id kw)
                  @ given ''card_id'' (kw_card_id kw) @ given ''back_url'' (kw_back_url kw)
                  @ given ''success_url'' (kw_success_url kw)
                  @ given ''failure_url'' (kw_failure_url kw)
                  @ given ''template'' (kw_template kw)"
    by (simp add: CreateOrder_init_Inr)
  then show ?thesis
    by (simp add: CreateOrder_dict_def exclude_unset_step exclude_unset_last in_given)
qed

lemma CaptureOrder_dict_entries:
  assumes "CaptureOrder_init kw = Inr r"
  shows "CaptureOrder_dict r =
       entry ''amount'' (kw_cp_amount kw) (PInt (cp_amount r))
     @ entry ''reason'' (kw_cp_reason kw) (py_opt PStr (cp_reason r))"
proof -
  from assms have "cp_fields_set r =
      given ''amount'' (kw_cp_amount kw) @ given ''reason'' (kw_cp_reason kw)"
    by (simp add: CaptureOrder_init_Inr)
  then show ?thesis
    by (simp add: CaptureOrder_dict_def exclude_unset_step exclude_unset_last in_given)
qed

lemma CheckPosition_dict_entries:
  assumes "CheckPosition_init kw = Inr r"
  shows "CheckPosition_dict r =
       entry ''name'' (kw_ps_name kw) (PStr (ps_name r))
     @ entry ''amount'' (kw_ps_amount kw) (PInt (ps_amount r))
     @ entry ''count'' (kw_ps_count kw) (PInt (ps_count r))
     @ entry ''section'' (kw_ps_section kw) (py_opt PInt (ps_section r))
     @ entry ''tax_percent'' (kw_ps_tax_percent kw) (py_opt PInt (ps_tax_percent r))
     @ entry ''tax_type'' (kw_ps_tax_type kw) (py_opt PInt (ps_tax_type r))
     @ entry ''tax_amount'' (kw_ps_tax_amount kw) (py_opt PInt (ps_tax_amount r))
     @ entry ''unit_code'' (kw_ps_unit_code kw) (py_opt PInt (ps_unit_code r))"
proof -
  from assms have "ps_fields_set r =
                  given ''name'' (kw_ps_name kw) @ given ''amount'' (kw_ps_amount kw)
                  @ given ''count'' (kw_ps_count kw) @ given ''section'' (kw_ps_section kw)
                  @ given ''tax_percent'' (kw_ps_tax_percent kw)
                  @ given ''tax_type'' (kw_ps_tax_type kw)
                  @ given ''tax_amount'' (kw_ps_tax_amount kw)
                  @ given ''unit_code'' (kw_ps_unit_code kw)"
    by (simp add: CheckPosition_init_Inr)
  then show ?thesis
    by (simp add: CheckPosition_dict_def exclude_unset_step exclude_unset_last in_given)
qed

lemma RefundOrder_dict_entries:
  assumes "RefundOrder_init kw = Inr r"
  shows "RefundOrder_dict r =
       entry ''amount'' (kw_rf_amount kw) (PInt (rf_amount r))
     @ entry ''reason'' (kw_rf_reason kw) (py_opt PStr (rf_reason r))
     @ entry ''rules'' (kw_rf_rules kw)
         (py_opt (\<lambda>xs. PList (map (\<lambda>x. PDict (RefundRule_dict x)) xs)) (rf_rules r))
     @ entry ''positions'' (kw_rf_positions kw)
         (py_opt (\<lambda>xs. PList (map (\<lambda>x. PDict (CheckPosition_dict x)) xs)) (rf_positions r))"
proof -
  from assms have "rf_fields_set r =
                  given ''amount'' (kw_rf_amount kw) @ given ''reason'' (kw_rf_reason kw)
                  @ given ''rules'' (kw_rf_rules kw)
                  @ given ''positions'' (kw_rf_positions kw)"
    by (simp add: RefundOrder_init_Inr)
  then show ?thesis
    by (simp add: RefundOrder_dict_def exclude_unset_step exclude_unset_last in_given)
qed

lemma last_sent_post:
  "d \<noteq> [] \<Longrightarrow>
   rq_params (last (sent (snd (Api_request nt self ''post'' path (Some d) ''json'' None True w)))) =
     Some (''json'', d)"
  by (simp add: sent_post request_to_def)

text \<open>
  Claim C6, amended. The payload built from a validated request record holds exactly
  the fields whose keywords were passed, in declaration order, each with the record's
  value, and that payload is the JSON body of the request sent. No default is added for
  a field that was not passed: \<^verbatim>\<open>attempts\<close> (default 10) and \<^verbatim>\<open>external_id\<close> are
  in the payload exactly when they were passed, and the tax fields of a position
  (default 0) likewise.
\<close>

theorem payload_is_passed_fields:
  "(CreateOrder_init HttpUrl m co = Inr r1 \<longrightarrow>
      CreateOrder_dict r1 =
         entry ''amount'' (kw_amount co) (PInt (co_amount r1))
       @ entry ''currency'' (kw_currency co) (py_opt PStr (co_currency r1))
       @ entry ''capture_method'' (kw_capture_method co) (py_opt PStr (co_capture_method r1))
       @ entry ''external_id'' (kw_external_id co) (PStr (co_external_id r1))
       @ entry ''description'' (kw_description co) (py_opt PStr (co_description r1))
       @ entry ''mcc'' (kw_mcc co) (py_opt PStr (co_mcc r1))
       @ entry ''extra_info'' (kw_extra_info co) (py_opt PDict (co_extra_info r1))
       @ entry ''attempts'' (kw_attempts co) (PInt (co_attempts r1))
       @ entry ''due_date'' (kw_due_date co) (py_opt PStr (co_due_date r1))
       @ entry ''customer_id'' (kw_customer_id co) (py_opt PStr (co_customer_id r1))
       @ entry ''card_id'' (kw_card_id co) (py_opt PStr (co_card_id r1))
       @ entry ''back_url'' (kw_back_url co) (py_opt PStr (co_back_url r1))
       @ entry ''success_url'' (kw_success_url co) (py_opt PStr (co_success_url r1))
       @ entry ''failure_url'' (kw_failure_url co) (py_opt PStr (co_failure_url r1))
       @ entry ''template'' (kw_template co) (py_opt PStr (co_template r1))
    \<and> (''attempts'' \<in> fst ` set (CreateOrder_dict r1) \<longleftrightarrow> kw_attempts co \<noteq> Omitted)
    \<and> (''external_id'' \<in> fst ` set (CreateOrder_dict r1) \<longleftrightarrow> kw_external_id co \<noteq> Omitted)
    \<and> rq_params (last (sent (snd (create_order HttpUrl m nt self co w)))) =
        Some (''json'', CreateOrder_dict r1))
   \<and> (CaptureOrder_init cp = Inr r2 \<longrightarrow>
      CaptureOrder_dict r2 =
         entry ''amount'' (kw_cp_amount cp) (PInt (cp_amount r2))
       @ entry ''reason'' (kw_cp_reason cp) (py_opt PStr (cp_reason r2))
    \<and> rq_params (last (sent (snd (capture_order nt self oid cp w)))) =
        Some (''json'', CaptureOrder_dict r2))
   \<and> (RefundOrder_init rf = Inr r3 \<longrightarrow>
      RefundOrder_dict r3 =
         entry ''amount'' (kw_rf_amount rf) (PInt (rf_amount r3))
       @ entry ''reason'' (kw_rf_reason rf) (py_opt PStr (rf_reason r3))
       @ entry ''rules'' (kw_rf_rules rf)
           (py_opt (\<lambda>xs. PList (map (\<lambda>x. PDict (RefundRule_dict x)) xs)) (rf_rules r3))
       @ entry ''positions'' (kw_rf_positions rf)
           (py_opt (\<lambda>xs. PList (map (\<lambda>x. PDict (CheckPosition_dict x)) xs)) (rf_positions r3))
    \<and> rq_params (last (sent (snd (refund_order nt self oid rf w)))) =
        Some (''json'', RefundOrder_dict r3))
   \<and> (CheckPosition_init ps = Inr r4 \<longrightarrow>
      CheckPosition_dict r4 =
         entry ''name'' (kw_ps_name ps) (PStr (ps_name r4))
       @ entry ''amount'' (kw_ps_amount ps) (PInt (ps_amount r4))
       @ entry ''count'' (kw_ps_count ps) (PInt (ps_count r4))
       @ entry ''section'' (kw_ps_section ps) (py_opt PInt (ps_section r4))
       @ entry ''tax_percent'' (kw_ps_tax_percent ps) (py_opt PInt (ps_tax_percent r4))
       @ entry ''tax_type'' (kw_ps_tax_type ps) (py_opt PInt (ps_tax_type r4))
       @ entry ''tax_amount'' (kw_ps_tax_amount ps) (py_opt PInt (ps_tax_amount r4))
       @ entry ''unit_code'' (kw_ps_unit_code ps) (py_opt PInt (ps_unit_code r4)))"
proof (intro conjI impI)
  assume v: "CreateOrder_init HttpUrl m co = Inr r1"
  note e = CreateOrder_dict_entries[OF v]
  show "CreateOrder_dict r1 =
         entry ''amount'' (kw_amount co) (PInt (co_amount r1))
       @ entry ''currency'' (kw_currency co) (py_opt PStr (co_currency r1))
       @ entry ''capture_method'' (kw_capture_method co) (py_opt PStr (co_capture_method r1))
       @ entry ''external_id'' (kw_external_id co) (PStr (co_external_id r1))
       @ entry ''description'' (kw_description co) (py_opt PStr (co_description r1))
       @ entry ''mcc'' (kw_mcc co) (py_opt PStr (co_mcc r1))
       @ entry ''extra_info'' (kw_extra_info co) (py_opt PDict (co_extra_info r1))
       @ entry ''attempts'' (kw_attempts co) (PInt (co_attempts r1))
       @ entry ''due_date'' (kw_due_date co) (py_opt PStr (co_due_date r1))
       @ entry ''customer_id'' (kw_customer_id co) (py_opt PStr (co_customer_id r1))
       @ entry ''card_id'' (kw_card_id co) (py_opt PStr (co_card_id r1))
       @ entry ''back_url'' (kw_back_url co) (py_opt PStr (co_back_url r1))
       @ entry ''success_url'' (kw_success_url co) (py_opt PStr (co_success_url r1))
       @ entry ''failure_url'' (kw_failure_url co) (py_opt PStr (co_failure_url r1))
       @ entry ''template'' (kw_template co) (py_opt PStr (co_template r1))"
    by (rule e)
  show "''attempts'' \<in> fst ` set (CreateOrder_dict r1) \<longleftrightarrow> kw_attempts co \<noteq> Omitted"
    by (simp add: e image_Un in_entry)
  show "''external_id'' \<in> fst ` set (CreateOrder_dict r1) \<longleftrightarrow> kw_external_id co \<noteq> Omitted"
    by (simp add: e image_Un in_entry)
  show "rq_params (last (sent (snd (create_order HttpUrl m nt self co w)))) =
        Some (''json'', CreateOrder_dict r1)"
    by (simp add: create_order_def v last_sent_post CreateOrder_dict_nonempty[OF v])
next
  assume v: "CaptureOrder_init cp = Inr r2"
  show "CaptureOrder_dict r2 =
         entry ''amount'' (kw_cp_amount cp) (PInt (cp_amount r2))
       @ entry ''reason'' (kw_cp_reason cp) (py_opt PStr (cp_reason r2))"
    by (rule CaptureOrder_dict_entries[OF v])
  show "rq_params (last (sent (snd (capture_order nt self oid cp w)))) =
        Some (''json'', CaptureOrder_dict r2)"
    by (simp add: capture_order_def v last_sent_post CaptureOrder_dict_nonempty[OF v])
next
  assume v: "RefundOrder_init rf = Inr r3"
  show "RefundOrder_dict r3 =
         entry ''amount'' (kw_rf_amount rf) (PInt (rf_amount r3))
       @ entry ''reason'' (kw_rf_reason rf) (py_opt PStr (rf_reason r3))
       @ entry ''rules'' (kw_rf_rules rf)
           (py_opt (\<lambda>xs. PList (map (\<lambda>x. PDict (RefundRule_dict x)) xs)) (rf_rules r3))
       @ entry ''positions'' (kw_rf_positions rf)
           (py_opt (\<lambda>xs. PList (map (\<lambda>x. PDict (CheckPosition_dict x)) xs)) (rf_positions r3))"
    by (rule RefundOrder_dict_entries[OF v])
  show "rq_params (last (sent (snd (refund_order nt self oid rf w)))) =
        Some (''json'', RefundOrder_dict r3)"
    by (simp add: refund_order_def v last_sent_post RefundOrder_dict_nonempty[OF v])
next
  assume v: "CheckPosition_init ps = Inr r4"
  show "CheckPosition_dict r4 =
         entry ''name'' (kw_ps_name ps) (PStr (ps_name r4))
       @ entry ''amount'' (kw_ps_amount ps) (PInt (ps_amount r4))
       @ entry ''count'' (kw_ps_count ps) (PInt (ps_count r4))
       @ entry ''section'' (kw_ps_section ps) (py_opt PInt (ps_section r4))
       @ entry ''tax_percent'' (kw_ps_tax_percent ps) (py_opt PInt (ps_tax_percent r4))
       @ entry ''tax_type'' (kw_ps_tax_type ps) (py_opt PInt (ps_tax_type r4))
       @ entry ''tax_amount'' (kw_ps_tax_amount ps) (py_opt PInt (ps_tax_amount r4))
       @ entry ''unit_code'' (kw_ps_unit_code ps) (py_opt PInt (ps_unit_code r4))"
    by (rule CheckPosition_dict_entries[OF v])
qed

lemma module0_simp: "external_id_default module0 = ''uuid-''"
  by (simp add: module0_def load_module_def uuid0_def)

lemmas eval_fields = Let_def err_def given_def constr_def any_def optional_def

lemma init_amount_100:
  "CreateOrder_init url0 module0 (no_keywords\<lparr>kw_amount := Passed 100\<rparr>) =
     Inr \<lparr>co_amount = 100, co_currency = None, co_capture_method = None,
          co_external_id = ''uuid-'', co_description = None, co_mcc = None,
          co_extra_info = None, co_attempts = 10, co_due_date = None, co_customer_id = None,
          co_card_id = None, co_back_url = None, co_success_url = None,
          co_failure_url = None, co_template = None, co_fields_set = [''amount'']\<rparr>"
  by (simp add: CreateOrder_init_def no_keywords_def module0_simp eval_fields)

lemma init_kzt_order:
  "CreateOrder_init url0 module0 kzt_order =
     Inr \<lparr>co_amount = 50000, co_currency = Some ''KZT'', co_capture_method = Some ''AUTO'',
          co_external_id = ''uuid-'', co_description = None, co_mcc = None,
          co_extra_info = None, co_attempts = 10, co_due_date = None, co_customer_id = None,
          co_card_id = None, co_back_url = None, co_success_url = None,
          co_failure_url = None, co_template = None,
          co_fields_set = [''amount'', ''currency'', ''capture_method'']\<rparr>"
  by (simp add: CreateOrder_init_def kzt_order_def no_keywords_def module0_simp eval_fields
      CurrencyEnum_def CaptureMethodEnum_def)

lemma init_capture_50000:
  "CaptureOrder_init \<lparr>kw_cp_amount = Passed 50000, kw_cp_reason = Omitted\<rparr> =
      Inr \<lparr>cp_amount = 50000, cp_reason = None, cp_fields_set = [''amount'']\<rparr>"
  by (simp add: CaptureOrder_init_def eval_fields)

lemma init_bare_position:
  "CheckPosition_init bare_position =
     Inr \<lparr>ps_name = ''tea'', ps_amount = 300, ps_count = 2, ps_section = None,
          ps_tax_percent = Some 0, ps_tax_type = Some 0, ps_tax_amount = Some 0,
          ps_unit_code = Some 0, ps_fields_set = [''name'', ''amount'', ''count'']\<rparr>"
  by (simp add: CheckPosition_init_def bare_position_def eval_fields)

lemma init_partial_refund:
  "RefundOrder_init partial_refund =
     Inr \<lparr>rf_amount = 600, rf_reason = None, rf_rules = None,
          rf_positions = Some [\<lparr>ps_name = ''tea'', ps_amount = 300, ps_count = 2,
             ps_section = None, ps_tax_percent = Some 0, ps_tax_type = Some 0,
             ps_tax_amount = Some 0, ps_unit_code = Some 0,
             ps_fields_set = [''name'', ''amount'', ''count'']\<rparr>],
          rf_fields_set = [''amount'', ''reason'', ''positions'']\<rparr>"
  by (simp add: RefundOrder_init_def partial_refund_def init_bare_position eval_fields)

text \<open>
  Claim C6 as stated fails in its exception: an order created with the amount alone
  has \<^verbatim>\<open>attempts\<close> 10 in the record, yet the payload sent is the amount and nothing
  else.
\<close>

theorem default_attempts_not_in_payload_counterexample:
  "(\<exists>r. CreateOrder_init url0 module0 (no_keywords\<lparr>kw_amount := Passed 100\<rparr>) = Inr r
        \<and> co_attempts r = 10 \<and> CreateOrder_dict r = [(''amount'', PInt 100)])
   \<and> rq_params (last (sent (snd
        (create_order url0 module0 net0 client_a (no_keywords\<lparr>kw_amount := Passed 100\<rparr>) w_ab)))) =
      Some (''json'', [(''amount'', PInt 100)])"
  by (simp add: init_amount_100 create_order_def CreateOrder_dict_def exclude_unset_def
      last_sent_post)

text \<open>
  C6 at the specification's example order, a capture, a refund with one position, and
  that position.
\<close>

theorem payload_is_passed_fields_witness:
  "(\<exists>r. CreateOrder_init url0 module0 kzt_order = Inr r
        \<and> rq_params (last (sent (snd (create_order url0 module0 net0 client_a kzt_order w_ab)))) =
            Some (''json'', [(''amount'', PInt 50000), (''currency'', PStr ''KZT''),
                             (''capture_method'', PStr ''AUTO'')]))
   \<and> (\<exists>r. CaptureOrder_init \<lparr>kw_cp_amount = Passed 50000, kw_cp_reason = Omitted\<rparr> = Inr r
        \<and> CaptureOrder_dict r = [(''amount'', PInt 50000)])
   \<and> (\<exists>r. RefundOrder_init partial_refund = Inr r
        \<and> RefundOrder_dict r =
            [(''amount'', PInt 600), (''reason'', PNone),
             (''positions'', PList [PDict [(''name'', PStr ''tea''), (''amount'', PInt 300),
                                           (''count'', PInt 2)]])])
   \<and> (\<exists>r. CheckPosition_init bare_position = Inr r
        \<and> ps_tax_percent r = Some 0
        \<and> CheckPosition_dict r =
            [(''name'', PStr ''tea''), (''amount'', PInt 300), (''count'', PInt 2)])"
proof -
  define r1 where "r1 =
     \<lparr>co_amount = 50000, co_currency = Some ''KZT'', co_capture_method = Some ''AUTO'',
          co_external_id = ''uuid-'', co_description = None, co_mcc = None,
          co_extra_info = None, co_attempts = 10, co_due_date = None, co_customer_id = None,
          co_card_id = None, co_back_url = None, co_success_url = None,
          co_failure_url = None, co_template = None,
          co_fields_set = [''amount'', ''currency'', ''capture_method'']\<rparr>"
  define r2 where "r2 = \<lparr>cp_amount = 50000, cp_reason = None, cp_fields_set = [''amount'']\<rparr>"
  define r4 where "r4 =
     \<lparr>ps_name = ''tea'', ps_amount = 300, ps_count = 2, ps_section = None,
          ps_tax_percent = Some 0, ps_tax_type = Some 0, ps_tax_amount = Some 0,
          ps_unit_code = Some 0, ps_fields_set = [''name'', ''amount'', ''count'']\<rparr>"
  define r3 where "r3 =
     \<lparr>rf_amount = 600, rf_reason = None, rf_rules = None, rf_positions = Some [r4],
          rf_fields_set = [''amount'', ''reason'', ''positions'']\<rparr>"
  have v1: "CreateOrder_init url0 module0 kzt_order = Inr r1"
    by (simp add: init_kzt_order r1_def)
  have v2: "CaptureOrder_init \<lparr>kw_cp_amount = Passed 50000, kw_cp_reason = Omitted\<rparr> = Inr r2"
    by (simp add: init_capture_50000 r2_def)
  have v3: "RefundOrder_init partial_refund = Inr r3"
    by (simp add: init_partial_refund r3_def r4_def)
  have v4: "CheckPosition_init bare_position = Inr r4"
    by (simp add: init_bare_position r4_def)
  have d4: "CheckPosition_dict r4 =
      [(''name'', PStr ''tea''), (''amount'', PInt 300), (''count'', PInt 2)]"
    using payload_is_passed_fields[where ps = bare_position and ?r4.0 = r4] v4
    by (simp add: entry_def py_opt_def bare_position_def r4_def)
  from payload_is_passed_fields[where HttpUrl = url0 and m = module0 and co = kzt_order
      and ?r1.0 = r1 and nt = net0 and self = client_a and w = w_ab
      and cp = "\<lparr>kw_cp_amount = Passed 50000, kw_cp_reason = Omitted\<rparr>" and ?r2.0 = r2
      and rf = partial_refund and ?r3.0 = r3 and ps = bare_position and ?r4.0 = r4]
    v1 v2 v3 v4
  have "rq_params (last (sent (snd (create_order url0 module0 net0 client_a kzt_order w_ab)))) =
            Some (''json'', [(''amount'', PInt 50000), (''currency'', PStr ''KZT''),
                             (''capture_method'', PStr ''AUTO'')])"
    and "CaptureOrder_dict r2 = [(''amount'', PInt 50000)]"
    and "RefundOrder_dict r3 =
            [(''amount'', PInt 600), (''reason'', PNone),
             (''positions'', PList [PDict [(''name'', PStr ''tea''), (''amount'', PInt 300),
                                           (''count'', PInt 2)]])]"
    by (simp_all add: entry_def py_opt_def kzt_order_def no_keywords_def partial_refund_def
        r1_def r2_def r3_def d4)
  with v1 v2 v3 v4 d4 show ?thesis
    by (simp add: r4_def)
qed

subsection \<open>The default of \<^verbatim>\<open>external_id\<close>\<close>

text \<open>
  Claim C2 says that two \<^verbatim>\<open>CreateOrder\<close> records built without \<open>external_id\<close>
  carry distinct identifiers. The code does not do that: \<^verbatim>\<open>str(uuid4())\<close> is
  evaluated once, when the class body runs, and every record built without
  \<open>external_id\<close> afterwards carries that one identifier, whatever the generator would
  hand out next.
\<close>

theorem default_external_id_is_shared:
  "fst (load_module uuid4 n) = m
   \<and> kw_external_id co1 = Omitted \<and> kw_external_id co2 = Omitted
   \<and> CreateOrder_init HttpUrl m co1 = Inr r1 \<and> CreateOrder_init HttpUrl m co2 = Inr r2
   \<longrightarrow> co_external_id r1 = uuid4 n \<and> co_external_id r2 = uuid4 n
     \<and> co_external_id r1 = co_external_id r2"
  by (auto simp: CreateOrder_init_Inr load_module_def)

text \<open>
  Two orders built on the example module share its identifier, though the generator's
  next one differs.
\<close>

theorem default_external_id_is_shared_witness:
  "fst (load_module uuid0 0) = module0
   \<and> kw_external_id (no_keywords\<lparr>kw_amount := Passed 100\<rparr>) = Omitted
   \<and> kw_external_id kzt_order = Omitted
   \<and> (\<exists>r1 r2. CreateOrder_init url0 module0 (no_keywords\<lparr>kw_amount := Passed 100\<rparr>) = Inr r1
        \<and> CreateOrder_init url0 module0 kzt_order = Inr r2
        \<and> co_external_id r1 = ''uuid-'' \<and> co_external_id r2 = ''uuid-'')
   \<and> uuid0 0 \<noteq> uuid0 1"
proof -
  obtain r1 r2 where v: "CreateOrder_init url0 module0 (no_keywords\<lparr>kw_amount := Passed 100\<rparr>) = Inr r1"
    "CreateOrder_init url0 module0 kzt_order = Inr r2"
    by (simp add: init_amount_100 init_kzt_order)
  have k: "kw_external_id (no_keywords\<lparr>kw_amount := Passed 100\<rparr>) = Omitted"
    "kw_external_id kzt_order = Omitted"
    by (simp_all add: no_keywords_def kzt_order_def)
  have m: "fst (load_module uuid0 0) = module0"
    by (simp add: module0_def)
  from default_external_id_is_shared[of uuid0 0 module0 "no_keywords\<lparr>kw_amount := Passed 100\<rparr>"
      kzt_order url0 r1 r2] m k v
  have "co_external_id r1 = uuid0 0 \<and> co_external_id r2 = uuid0 0"
    by simp
  with m k v show ?thesis
    by (auto simp: uuid0_def)
qed

subsection \<open>When a request record is valid\<close>

text \<open>
  Claim C5 as stated fails in its "exactly when": construction also raises where none
  of the listed bounds is violated, for an empty \<open>external_id\<close>, for a currency outside
  the enumeration, and for a missing required amount.
\<close>

theorem validation_beyond_listed_bounds_counterexample:
  "CreateOrder_init url0 module0 (no_keywords\<lparr>kw_amount := Passed 100, kw_external_id := Passed []\<rparr>)
     = Inl (ValidationError [''external_id''])
   \<and> \<not> CreateOrder_listed_violation url0
         (no_keywords\<lparr>kw_amount := Passed 100, kw_external_id := Passed []\<rparr>)
   \<and> CreateOrder_init url0 module0 (no_keywords\<lparr>kw_amount := Passed 100, kw_currency := Passed (Some ''EUR'')\<rparr>)
     = Inl (ValidationError [''currency''])
   \<and> \<not> CreateOrder_listed_violation url0
         (no_keywords\<lparr>kw_amount := Passed 100, kw_currency := Passed (Some ''EUR'')\<rparr>)
   \<and> CaptureOrder_init \<lparr>kw_cp_amount = Omitted, kw_cp_reason = Omitted\<rparr>
     = Inl (ValidationError [''amount''])
   \<and> \<not> CaptureOrder_listed_violation \<lparr>kw_cp_amount = Omitted, kw_cp_reason = Omitted\<rparr>"
  by (simp add: CreateOrder_init_def CaptureOrder_init_def no_keywords_def module0_simp eval_fields
      CurrencyEnum_def CreateOrder_listed_violation_def CaptureOrder_listed_violation_def
      too_small_def too_long_def malformed_def)

lemma the_required_Passed: "P x \<Longrightarrow> the (required (constr P) (Passed x)) = x"
  by (simp add: constr_def)

lemma the_required_any_Passed: "the (required any (Passed x)) = x"
  by (simp add: any_def)

lemma CreateOrder_init_iff:
  "CreateOrder_init HttpUrl m co = Inr r \<longleftrightarrow>
     (\<exists>a. kw_amount co = Passed a \<and> 100 \<le> a
        \<and> (\<forall>c. kw_currency co = Passed (Some c) \<longrightarrow> c \<in> set CurrencyEnum)
        \<and> (\<forall>c. kw_capture_method co = Passed (Some c) \<longrightarrow> c \<in> set CaptureMethodEnum)
        \<and> (\<forall>s. kw_external_id co = Passed s \<longrightarrow> 1 \<le> length s)
        \<and> (\<forall>s. kw_mcc co = Passed (Some s) \<longrightarrow> length s = 4)
        \<and> (\<forall>n. kw_attempts co = Passed n \<longrightarrow> 1 \<le> n \<and> n \<le> 50)
        \<and> (\<forall>s. kw_customer_id co = Passed (Some s) \<longrightarrow> 1 \<le> length s)
        \<and> (\<forall>s. kw_card_id co = Passed (Some s) \<longrightarrow> 1 \<le> length s)
        \<and> (\<forall>u. kw_back_url co = Passed (Some u) \<longrightarrow> HttpUrl u \<noteq> None)
        \<and> (\<forall>u. kw_success_url co = Passed (Some u) \<longrightarrow> HttpUrl u \<noteq> None)
        \<and> (\<forall>u. kw_failure_url co = Passed (Some u) \<longrightarrow> HttpUrl u \<noteq> None)
        \<and> r = \<lparr>co_amount = a,
               co_currency = (case kw_currency co of Omitted \<Rightarrow> None | Passed v \<Rightarrow> v),
               co_capture_method = (case kw_capture_method co of Omitted \<Rightarrow> None | Passed v \<Rightarrow> v),
               co_external_id =
                 (case kw_external_id co of Omitted \<Rightarrow> external_id_default m | Passed s \<Rightarrow> s),
               co_description = (case kw_description co of Omitted \<Rightarrow> None | Passed v \<Rightarrow> v),
               co_mcc = (case kw_mcc co of Omitted \<Rightarrow> None | Passed v \<Rightarrow> v),
               co_extra_info = (case kw_extra_info co of Omitted \<Rightarrow> None | Passed v \<Rightarrow> v),
               co_attempts = (case kw_attempts co of Omitted \<Rightarrow> 10 | Passed n \<Rightarrow> n),
               co_due_date = (case kw_due_date co of Omitted \<Rightarrow> None | Passed v \<Rightarrow> v),
               co_customer_id = (case kw_customer_id co of Omitted \<Rightarrow> None | Passed v \<Rightarrow> v),
               co_card_id = (case kw_card_id co of Omitted \<Rightarrow> None | Passed v \<Rightarrow> v),
               co_back_url = (case kw_back_url co of Passed (Some u) \<Rightarrow> HttpUrl u | _ \<Rightarrow> None),
               co_success_url =
                 (case kw_success_url co of Passed (Some u) \<Rightarrow> HttpUrl u | _ \<Rightarrow> None),
               co_failure_url =
                 (case kw_failure_url co of Passed (Some u) \<Rightarrow> HttpUrl u | _ \<Rightarrow> None),
               co_template = (case kw_template co of Omitted \<Rightarrow> None | Passed v \<Rightarrow> v),
               co_fields_set =
                  given ''amount'' (kw_amount co) @ given ''currency'' (kw_currency co)
                  @ given ''capture_method'' (kw_capture_method co)
                  @ given ''external_id'' (kw_external_id co)
                  @ given ''description'' (kw_description co) @ given ''mcc'' (kw_mcc co)
                  @ given ''extra_info'' (kw_extra_info co)
                  @ given ''attempts'' (kw_attempts co) @ given ''due_date'' (kw_due_date co)
                  @ given ''customer_id'' (kw_customer_id co)
                  @ given ''card_id'' (kw_card_id co) @ given ''back_url'' (kw_back_url co)
                  @ given ''success_url'' (kw_success_url co)
                  @ given ''failure_url'' (kw_failure_url co)
                  @ given ''template'' (kw_template co)\<rparr>)"
  unfolding CreateOrder_init_Inr
  by (cases "kw_amount co") (auto simp: constr_def any_def)

lemma CancelOrder_init_iff:
  "CancelOrder_init cn = Inr r \<longleftrightarrow>
     (\<exists>i s. kw_cn_order_id cn = Passed i \<and> kw_cn_reason cn = Passed s \<and> length s \<le> 255
        \<and> r = \<lparr>cn_order_id = i, cn_reason = s, cn_fields_set = [''order_id'', ''reason'']\<rparr>)"
  unfolding CancelOrder_init_Inr
  by (cases "kw_cn_order_id cn"; cases "kw_cn_reason cn")
     (auto simp: constr_def any_def)

lemma CaptureOrder_init_iff:
  "CaptureOrder_init cp = Inr r \<longleftrightarrow>
     (\<exists>a. kw_cp_amount cp = Passed a \<and> 100 \<le> a
        \<and> (\<forall>s. kw_cp_reason cp = Passed (Some s) \<longrightarrow> length s \<le> 255)
        \<and> r = \<lparr>cp_amount = a,
               cp_reason = (case kw_cp_reason cp of Omitted \<Rightarrow> None | Passed v \<Rightarrow> v),
               cp_fields_set = given ''amount'' (kw_cp_amount cp) @ given ''reason'' (kw_cp_reason cp)\<rparr>)"
  unfolding CaptureOrder_init_Inr
  by (cases "kw_cp_amount cp") (auto simp: constr_def any_def)

lemma RefundRule_init_iff:
  "RefundRule_init rr = Inr r \<longleftrightarrow>
     (\<exists>a n. kw_rr_account_id rr = Passed a \<and> kw_rr_amount rr = Passed n
        \<and> r = \<lparr>rr_account_id = a, rr_amount = n, rr_fields_set = [''account_id'', ''amount'']\<rparr>)"
  unfolding RefundRule_init_Inr
  by (cases "kw_rr_account_id rr"; cases "kw_rr_amount rr")
     (auto simp: constr_def any_def)

lemma CheckPosition_init_iff:
  "CheckPosition_init ps = Inr r \<longleftrightarrow>
     (\<exists>a n c. kw_ps_name ps = Passed a \<and> kw_ps_amount ps = Passed n \<and> kw_ps_count ps = Passed c
        \<and> (\<forall>t. kw_ps_tax_type ps = Passed (Some t) \<longrightarrow> t \<in> set OperationTypeEnum)
        \<and> r = \<lparr>ps_name = a, ps_amount = n, ps_count = c,
               ps_section = (case kw_ps_section ps of Omitted \<Rightarrow> None | Passed v \<Rightarrow> v),
               ps_tax_percent = (case kw_ps_tax_percent ps of Omitted \<Rightarrow> Some 0 | Passed v \<Rightarrow> v),
               ps_tax_type = (case kw_ps_tax_type ps of Omitted \<Rightarrow> Some 0 | Passed v \<Rightarrow> v),
               ps_tax_amount = (case kw_ps_tax_amount ps of Omitted \<Rightarrow> Some 0 | Passed v \<Rightarrow> v),
               ps_unit_code = (case kw_ps_unit_code ps of Omitted \<Rightarrow> Some 0 | Passed v \<Rightarrow> v),
               ps_fields_set =
                  given ''name'' (kw_ps_name ps) @ given ''amount'' (kw_ps_amount ps)
                  @ given ''count'' (kw_ps_count ps) @ given ''section'' (kw_ps_section ps)
                  @ given ''tax_percent'' (kw_ps_tax_percent ps)
                  @ given ''tax_type'' (kw_ps_tax_type ps)
                  @ given ''tax_amount'' (kw_ps_tax_amount ps)
                  @ given ''unit_code'' (kw_ps_unit_code ps)\<rparr>)"
  unfolding CheckPosition_init_Inr
  by (cases "kw_ps_name ps"; cases "kw_ps_amount ps"; cases "kw_ps_count ps")
     (auto simp: constr_def any_def)

lemma RefundOrder_init_iff:
  "RefundOrder_init rf = Inr r \<longleftrightarrow>
     (\<exists>a. kw_rf_amount rf = Passed a \<and> 100 \<le> a
        \<and> (\<forall>s. kw_rf_reason rf = Passed (Some s) \<longrightarrow> length s \<le> 255)
        \<and> (\<forall>xs. kw_rf_rules rf = Passed (Some xs) \<longrightarrow>
              (\<forall>x\<in>set xs. \<exists>y. RefundRule_init x = Inr y))
        \<and> (\<forall>xs. kw_rf_positions rf = Passed (Some xs) \<longrightarrow>
              (\<forall>x\<in>set xs. \<exists>y. CheckPosition_init x = Inr y))
        \<and> r = \<lparr>rf_amount = a,
               rf_reason = (case kw_rf_reason rf of Omitted \<Rightarrow> None | Passed v \<Rightarrow> v),
               rf_rules = (case kw_rf_rules rf of
                             Passed (Some xs) \<Rightarrow> each RefundRule_init xs | _ \<Rightarrow> None),
               rf_positions = (case kw_rf_positions rf of
                                 Passed (Some xs) \<Rightarrow> each CheckPosition_init xs | _ \<Rightarrow> None),
               rf_fields_set =
                  given ''amount'' (kw_rf_amount rf) @ given ''reason'' (kw_rf_reason rf)
                  @ given ''rules'' (kw_rf_rules rf)
                  @ given ''positions'' (kw_rf_positions rf)\<rparr>)"
  unfolding RefundOrder_init_Inr
  by (cases "kw_rf_amount rf") (auto simp: constr_def any_def)

text \<open>
  Claim C5, amended. For keywords of the declared types, construction of a request
  record (and of a refund's rules and positions) succeeds exactly when every required
  field is passed and every passed value other than \<^verbatim>\<open>None\<close> meets its declared
  constraint: amount at least 100; currency, capture method and tax type in their
  enumerations; \<open>external_id\<close>, \<open>customer_id\<close> and \<open>card_id\<close> non-empty; \<open>mcc\<close> of
  length 4; attempts from 1 to 50; reason of at most 255 characters; URLs accepted by the
  URL validator; every rule and position valid. The record then holds, field by field,
  the passed value (a URL as validated) or the declared default, and the names of the
  passed fields. Otherwise construction raises a \<^verbatim>\<open>ValidationError\<close> that names at
  least one field.
\<close>

theorem request_record_validation:
  "(CreateOrder_init HttpUrl m co = Inr r1 \<longleftrightarrow>
        (\<exists>a. kw_amount co = Passed a \<and> 100 \<le> a
           \<and> (\<forall>c. kw_currency co = Passed (Some c) \<longrightarrow> c \<in> set CurrencyEnum)
           \<and> (\<forall>c. kw_capture_method co = Passed (Some c) \<longrightarrow> c \<in> set CaptureMethodEnum)
           \<and> (\<forall>s. kw_external_id co = Passed s \<longrightarrow> 1 \<le> length s)
           \<and> (\<forall>s. kw_mcc co = Passed (Some s) \<longrightarrow> length s = 4)
           \<and> (\<forall>n. kw_attempts co = Passed n \<longrightarrow> 1 \<le> n \<and> n \<le> 50)
           \<and> (\<forall>s. kw_customer_id co = Passed (Some s) \<longrightarrow> 1 \<le> length s)
           \<and> (\<forall>s. kw_card_id co = Passed (Some s) \<longrightarrow> 1 \<le> length s)
           \<and> (\<forall>u. kw_back_url co = Passed (Some u) \<longrightarrow> HttpUrl u \<noteq> None)
           \<and> (\<forall>u. kw_success_url co = Passed (Some u) \<longrightarrow> HttpUrl u \<noteq> None)
           \<and> (\<forall>u. kw_failure_url co = Passed (Some u) \<longrightarrow> HttpUrl u \<noteq> None)
           \<and> r1 = \<lparr>co_amount = a,
                  co_currency = (case kw_currency co of Omitted \<Rightarrow> None | Passed v \<Rightarrow> v),
                  co_capture_method = (case kw_capture_method co of Omitted \<Rightarrow> None | Passed v \<Rightarrow> v),
                  co_external_id =
                    (case kw_external_id co of Omitted \<Rightarrow> external_id_default m | Passed s \<Rightarrow> s),
                  co_description = (case kw_description co of Omitted \<Rightarrow> None | Passed v \<Rightarrow> v),
                  co_mcc = (case kw_mcc co of Omitted \<Rightarrow> None | Passed v \<Rightarrow> v),
                  co_extra_info = (case kw_extra_info co of Omitted \<Rightarrow> None | Passed v \<Rightarrow> v),
                  co_attempts = (case kw_attempts co of Omitted \<Rightarrow> 10 | Passed n \<Rightarrow> n),
                  co_due_date = (case kw_due_date co of Omitted \<Rightarrow> None | Passed v \<Rightarrow> v),
                  co_customer_id = (case kw_customer_id co of Omitted \<Rightarrow> None | Passed v \<Rightarrow> v),
                  co_card_id = (case kw_card_id co of Omitted \<Rightarrow> None | Passed v \<Rightarrow> v),
                  co_back_url = (case kw_back_url co of Passed (Some u) \<Rightarrow> HttpUrl u | _ \<Rightarrow> None),
                  co_success_url =
                    (case kw_success_url co of Passed (Some u) \<Rightarrow> HttpUrl u | _ \<Rightarrow> None),
                  co_failure_url =
                    (case kw_failure_url co of Passed (Some u) \<Rightarrow> HttpUrl u | _ \<Rightarrow> None),
                  co_template = (case kw_template co of Omitted \<Rightarrow> None | Passed v \<Rightarrow> v),
                  co_fields_set =
                     given ''amount'' (kw_amount co) @ given ''currency'' (kw_currency co)
                     @ given ''capture_method'' (kw_capture_method co)
                     @ given ''external_id'' (kw_external_id co)
                     @ given ''description'' (kw_description co) @ given ''mcc'' (kw_mcc co)
                     @ given ''extra_info'' (kw_extra_info co)
                     @ given ''attempts'' (kw_attempts co) @ given ''due_date'' (kw_due_date co)
                     @ given ''customer_id'' (kw_customer_id co)
                     @ given ''card_id'' (kw_card_id co) @ given ''back_url'' (kw_back_url co)
                     @ given ''success_url'' (kw_success_url co)
                     @ given ''failure_url'' (kw_failure_url co)
                     @ given ''template'' (kw_template co)\<rparr>))
   \<and> (CancelOrder_init cn = Inr r2 \<longleftrightarrow>
        (\<exists>i s. kw_cn_order_id cn = Passed i \<and> kw_cn_reason cn = Passed s \<and> length s \<le> 255
           \<and> r2 = \<lparr>cn_order_id = i, cn_reason = s, cn_fields_set = [''order_id'', ''reason'']\<rparr>))
   \<and> (CaptureOrder_init cp = Inr r3 \<longleftrightarrow>
        (\<exists>a. kw_cp_amount cp = Passed a \<and> 100 \<le> a
           \<and> (\<forall>s. kw_cp_reason cp = Passed (Some s) \<longrightarrow> length s \<le> 255)
           \<and> r3 = \<lparr>cp_amount = a,
                  cp_reason = (case kw_cp_reason cp of Omitted \<Rightarrow> None | Passed v \<Rightarrow> v),
                  cp_fields_set = given ''amount'' (kw_cp_amount cp) @ given ''reason'' (kw_cp_reason cp)\<rparr>))
   \<and> (RefundOrder_init rf = Inr r4 \<longleftrightarrow>
        (\<exists>a. kw_rf_amount rf = Passed a \<and> 100 \<le> a
           \<and> (\<forall>s. kw_rf_reason rf = Passed (Some s) \<longrightarrow> length s \<le> 255)
           \<and> (\<forall>xs. kw_rf_rules rf = Passed (Some xs) \<longrightarrow>
                 (\<forall>x\<in>set xs. \<exists>y. RefundRule_init x = Inr y))
           \<and> (\<forall>xs. kw_rf_positions rf = Passed (Some xs) \<longrightarrow>
                 (\<forall>x\<in>set xs. \<exists>y. CheckPosition_init x = Inr y))
           \<and> r4 = \<lparr>rf_amount = a,
                  rf_reason = (case kw_rf_reason rf of Omitted \<Rightarrow> None | Passed v \<Rightarrow> v),
                  rf_rules = (case kw_rf_rules rf of
                                Passed (Some xs) \<Rightarrow> each RefundRule_init xs | _ \<Rightarrow> None),
                  rf_positions = (case kw_rf_positions rf of
                                    Passed (Some xs) \<Rightarrow> each CheckPosition_init xs | _ \<Rightarrow> None),
                  rf_fields_set =
                     given ''amount'' (kw_rf_amount rf) @ given ''reason'' (kw_rf_reason rf)
                     @ given ''rules'' (kw_rf_rules rf)
                     @ given ''positions'' (kw_rf_positions rf)\<rparr>))
   \<and> (RefundRule_init rr = Inr r5 \<longleftrightarrow>
        (\<exists>a n. kw_rr_account_id rr = Passed a \<and> kw_rr_amount rr = Passed n
           \<and> r5 = \<lparr>rr_account_id = a, rr_amount = n, rr_fields_set = [''account_id'', ''amount'']\<rparr>))
   \<and> (CheckPosition_init ps = Inr r6 \<longleftrightarrow>
        (\<exists>a n c. kw_ps_name ps = Passed a \<and> kw_ps_amount ps = Passed n \<and> kw_ps_count ps = Passed c
           \<and> (\<forall>t. kw_ps_tax_type ps = Passed (Some t) \<longrightarrow> t \<in> set OperationTypeEnum)
           \<and> r6 = \<lparr>ps_name = a, ps_amount = n, ps_count = c,
                  ps_section = (case kw_ps_section ps of Omitted \<Rightarrow> None | Passed v \<Rightarrow> v),
                  ps_tax_percent = (case kw_ps_tax_percent ps of Omitted \<Rightarrow> Some 0 | Passed v \<Rightarrow> v),
                  ps_tax_type = (case kw_ps_tax_type ps of Omitted \<Rightarrow> Some 0 | Passed v \<Rightarrow> v),
                  ps_tax_amount = (case kw_ps_tax_amount ps of Omitted \<Rightarrow> Some 0 | Passed v \<Rightarrow> v),
                  ps_unit_code = (case kw_ps_unit_code ps of Omitted \<Rightarrow> Some 0 | Passed v \<Rightarrow> v),
                  ps_fields_set =
                     given ''name'' (kw_ps_name ps) @ given ''amount'' (kw_ps_amount ps)
                     @ given ''count'' (kw_ps_count ps) @ given ''section'' (kw_ps_section ps)
                     @ given ''tax_percent'' (kw_ps_tax_percent ps)
                     @ given ''tax_type'' (kw_ps_tax_type ps)
                     @ given ''tax_amount'' (kw_ps_tax_amount ps)
                     @ given ''unit_code'' (kw_ps_unit_code ps)\<rparr>))
   \<and> (CreateOrder_init HttpUrl m co = Inl e1 \<longrightarrow> (\<exists>errs. errs \<noteq> [] \<and> e1 = ValidationError errs))
   \<and> (CancelOrder_init cn = Inl e2 \<longrightarrow> (\<exists>errs. errs \<noteq> [] \<and> e2 = ValidationError errs))
   \<and> (CaptureOrder_init cp = Inl e3 \<longrightarrow> (\<exists>errs. errs \<noteq> [] \<and> e3 = ValidationError errs))
   \<and> (RefundOrder_init rf = Inl e4 \<longrightarrow> (\<exists>errs. errs \<noteq> [] \<and> e4 = ValidationError errs))"
  using CreateOrder_init_iff[of HttpUrl m co r1] CancelOrder_init_iff[of cn r2]
    CaptureOrder_init_iff[of cp r3] RefundOrder_init_iff[of rf r4] RefundRule_init_iff[of rr r5]
    CheckPosition_init_iff[of ps r6] init_Inl(1)[of HttpUrl m co e1] init_Inl(2)[of cn e2]
    init_Inl(3)[of cp e3] init_Inl(4)[of rf e4]
  by blast

text \<open>
  C5 at the specification's example order, at an amount of 99, and at a cancel and a
  capture record.
\<close>

theorem request_record_validation_witness:
  "CreateOrder_init url0 module0 kzt_order =
     Inr \<lparr>co_amount = 50000, co_currency = Some ''KZT'', co_capture_method = Some ''AUTO'',
          co_external_id = ''uuid-'', co_description = None, co_mcc = None,
          co_extra_info = None, co_attempts = 10, co_due_date = None, co_customer_id = None,
          co_card_id = None, co_back_url = None, co_success_url = None,
          co_failure_url = None, co_template = None,
          co_fields_set = [''amount'', ''currency'', ''capture_method'']\<rparr>
   \<and> (\<exists>errs. errs \<noteq> [] \<and>
         CreateOrder_init url0 module0 (no_keywords\<lparr>kw_amount := Passed 99\<rparr>) =
           Inl (ValidationError errs))
   \<and> CancelOrder_init \<lparr>kw_cn_order_id = Passed ''1'', kw_cn_reason = Passed ''late''\<rparr> =
       Inr \<lparr>cn_order_id = ''1'', cn_reason = ''late'', cn_fields_set = [''order_id'', ''reason'']\<rparr>
   \<and> CaptureOrder_init \<lparr>kw_cp_amount = Passed 50000, kw_cp_reason = Omitted\<rparr> =
       Inr \<lparr>cp_amount = 50000, cp_reason = None, cp_fields_set = [''amount'']\<rparr>"
proof -
  note t = request_record_validation[where HttpUrl = url0 and m = module0]
  have 1: "CreateOrder_init url0 module0 kzt_order =
     Inr \<lparr>co_amount = 50000, co_currency = Some ''KZT'', co_capture_method = Some ''AUTO'',
          co_external_id = ''uuid-'', co_description = None, co_mcc = None,
          co_extra_info = None, co_attempts = 10, co_due_date = None, co_customer_id = None,
          co_card_id = None, co_back_url = None, co_success_url = None,
          co_failure_url = None, co_template = None,
          co_fields_set = [''amount'', ''currency'', ''capture_method'']\<rparr>"
    by (subst t[THEN conjunct1])
       (simp add: kzt_order_def no_keywords_def module0_simp given_def CurrencyEnum_def
          CaptureMethodEnum_def)
  have n: "\<And>r. CreateOrder_init url0 module0 (no_keywords\<lparr>kw_amount := Passed 99\<rparr>) \<noteq> Inr r"
    by (subst t[THEN conjunct1]) (simp add: no_keywords_def)
  have 2: "\<exists>errs. errs \<noteq> [] \<and>
         CreateOrder_init url0 module0 (no_keywords\<lparr>kw_amount := Passed 99\<rparr>) =
           Inl (ValidationError errs)"
  proof (cases "CreateOrder_init url0 module0 (no_keywords\<lparr>kw_amount := Passed 99\<rparr>)")
    case (Inl e)
    with t[where co = "no_keywords\<lparr>kw_amount := Passed 99\<rparr>" and ?e1.0 = e]
    show ?thesis by auto
  next
    case (Inr r)
    with n[of r] show ?thesis by blast
  qed
  have 3: "CancelOrder_init \<lparr>kw_cn_order_id = Passed ''1'', kw_cn_reason = Passed ''late''\<rparr> =
       Inr \<lparr>cn_order_id = ''1'', cn_reason = ''late'', cn_fields_set = [''order_id'', ''reason'']\<rparr>"
    by (subst t[THEN conjunct2, THEN conjunct1]) simp
  have 4: "CaptureOrder_init \<lparr>kw_cp_amount = Passed 50000, kw_cp_reason = Omitted\<rparr> =
       Inr \<lparr>cp_amount = 50000, cp_reason = None, cp_fields_set = [''amount'']\<rparr>"
    by (subst t[THEN conjunct2, THEN conjunct2, THEN conjunct1]) (simp add: given_def)
  from 1 2 3 4 show ?thesis by blast
qed

subsection \<open>Which client a facade uses\<close>

lemma carries_request_to: "carries x (request_to x w verb path body)"
  by (simp add: carries_def request_to_def update_conv')

lemma sends_as_none: "sent w' = sent w \<Longrightarrow> sends_as x w w'"
  by (simp add: sends_as_def)

lemma sends_as_one: "sent w' = sent w @ [request_to x w verb path body] \<Longrightarrow> sends_as x w w'"
  by (simp add: sends_as_def carries_request_to)

lemma sends_as_case:
  "sent w' = (case v of Inl e \<Rightarrow> sent w | Inr r \<Rightarrow> sent w @ [request_to x w verb path (body r)])
   \<Longrightarrow> sends_as x w w'"
  by (cases v) (simp_all add: sends_as_none sends_as_one)

lemma Api_sends_as:
  "sends_as x w (snd (create_order HttpUrl m nt x co w))"
  "sends_as x w (snd (cancel_order nt x oid cn w))"
  "sends_as x w (snd (get_orders nt x w))"
  "sends_as x w (snd (get_order_by_id nt x oid w))"
  "sends_as x w (snd (capture_order nt x oid cp w))"
  "sends_as x w (snd (get_order_events nt x oid w))"
  "sends_as x w (snd (refund_order nt x oid rf w))"
  "sends_as x w (snd (get_refunds nt x oid w))"
  "sends_as x w (snd (get_refund_by_id nt x oid rid w))"
proof -
  show "sends_as x w (snd (create_order HttpUrl m nt x co w))"
    by (rule sends_as_case[OF create_order_sent])
  show "sends_as x w (snd (cancel_order nt x oid cn w))"
    by (rule sends_as_none[OF cancel_order_sent])
  show "sends_as x w (snd (capture_order nt x oid cp w))"
    by (rule sends_as_case[OF capture_order_sent])
  show "sends_as x w (snd (refund_order nt x oid rf w))"
    by (rule sends_as_case[OF refund_order_sent])
qed (simp_all add: get_orders_def get_order_by_id_def get_order_events_def get_refunds_def
      get_refund_by_id_def sent_get sends_as_one)

lemma bound_api_Some: "class_api w c = Some x \<Longrightarrow> bound_api c w = Inr x"
  by (simp add: bound_api_def)

text \<open>
  Claim C1, amended. \<^verbatim>\<open>X.order\<close> returns the one class object \<^verbatim>\<open>Order\<close> and binds
  it to \<open>X\<close>, sending nothing. Every request that an operation of the facade issues, be
  it a class method or a method of an \<^verbatim>\<open>Order\<close> instance, goes to the host and
  version and carries the key of the client the class is bound to when the operation is
  called, that is, of the client whose \<^verbatim>\<open>.order\<close> was accessed last.
\<close>

theorem facade_uses_bound_client:
  "fst (Ioka_order x w) = Order_cls
   \<and> class_api (snd (Ioka_order x w)) Order_cls = Some x
   \<and> sent (snd (Ioka_order x w)) = sent w
   \<and> (class_api w c = Some x \<longrightarrow>
        sends_as x w (snd (Order_create wrap1 HttpUrl m nt c co w))
      \<and> sends_as x w (snd (Order_cancel wrap2 nt c cn w))
      \<and> sends_as x w (snd (Order_list wrap3 nt c w))
      \<and> sends_as x w (snd (Order_retrieve wrap4 nt c oid w)))
   \<and> (class_api w Order_cls = Some x \<longrightarrow>
        sends_as x w (snd (Order_capture wrap5 nt self cp w))
      \<and> sends_as x w (snd (Order_get_events wrap6 nt self w))
      \<and> sends_as x w (snd (Order_refund wrap7 nt self rf w))
      \<and> sends_as x w (snd (Order_refund_list wrap8 nt self w))
      \<and> sends_as x w (snd (Order_refund_retrieve wrap9 nt self rid w)))"
proof -
  have cancel: "sends_as x w (snd (Order_cancel wrap2 nt c cn w))" if "class_api w c = Some x"
    using that
    by (cases "kw_cn_order_id cn")
       (simp_all add: Order_cancel_def bound_api_Some snd_wrapped Api_sends_as sends_as_none)
  show ?thesis
    using cancel
    by (simp add: Ioka_order_def set_api_def Order_create_def Order_list_def Order_retrieve_def
        Order_capture_def Order_get_events_def Order_refund_def Order_refund_list_def
        Order_refund_retrieve_def bound_api_Some snd_wrapped Api_sends_as)
qed

lemma retrieve_after_b:
  "sent (snd (Order_retrieve wrap net0 c ''1'' (snd (Ioka_order client_b (snd (Ioka_order client_a w_ab)))))) =
     [\<lparr>rq_verb = ''GET'', rq_url = ''https://api.ioka.kz/v2/orders/1'',
       rq_headers = [(''API-KEY'', Str ''key-of-b''), (''Content-Type'', Str ''application/json'')],
       rq_params = None\<rparr>]"
  by (cases c)
     (simp add: Order_retrieve_def Ioka_order_def set_api_def bound_api_def snd_wrapped
        get_order_by_id_def sent_get request_to_def client_b_simps w_ab_eq)

text \<open>
  Claim C1 as stated fails. The two example clients differ in host and key. The facade
  taken from the first, used after \<^verbatim>\<open>.order\<close> of the second was accessed, is the same
  object as the second's and sends its request to the second client's host with the
  second client's key.
\<close>

theorem facades_share_binding_counterexample:
  "api_key client_a \<noteq> api_key client_b \<and> api_host client_a \<noteq> api_host client_b
   \<and> (case Ioka_order client_a w_ab of
         (facade_a, w1) \<Rightarrow>
           (case Ioka_order client_b w1 of
              (facade_b, w2) \<Rightarrow>
                facade_a = facade_b
                \<and> sent (snd (Order_retrieve (\<lambda>j. Inr order1) net0 facade_a ''1'' w2)) =
                    [\<lparr>rq_verb = ''GET'', rq_url = ''https://api.ioka.kz/v2/orders/1'',
                      rq_headers = [(''API-KEY'', Str ''key-of-b''),
                                    (''Content-Type'', Str ''application/json'')],
                      rq_params = None\<rparr>]
                \<and> \<not> sends_as client_a w2
                      (snd (Order_retrieve (\<lambda>j. Inr order1) net0 facade_a ''1'' w2))))"
proof -
  have s: "sent (snd (Ioka_order client_b (snd (Ioka_order client_a w_ab)))) = []"
    by (simp add: Ioka_order_def set_api_def w_ab_eq)
  show ?thesis
    using retrieve_after_b[of "\<lambda>j. Inr order1" Order_cls]
    by (simp add: split_beta sends_as_def carries_def s client_a_simps client_b_simps)
       (simp add: Ioka_order_def set_api_def carries_def client_a_simps)
qed

text \<open>C1 on the world in which the first client was bound last.\<close>

theorem facade_uses_bound_client_witness:
  "class_api w_bound_a Order_cls = Some client_a
   \<and> sent (snd (Order_retrieve (\<lambda>j. Inr order1) net0 Order_cls ''1'' w_bound_a)) =
       [\<lparr>rq_verb = ''GET'', rq_url = ''https://stage-api.ioka.kz/v2/orders/1'',
         rq_headers = [(''API-KEY'', Str ''key-of-a''), (''Content-Type'', Str ''application/json'')],
         rq_params = None\<rparr>]
   \<and> sends_as client_a w_bound_a
       (snd (Order_retrieve (\<lambda>j. Inr order1) net0 Order_cls ''1'' w_bound_a))
   \<and> sends_as client_a w_bound_a
       (snd (Order_capture (\<lambda>j. Inr j) net0 order1
          \<lparr>kw_cp_amount = Passed 50000, kw_cp_reason = Omitted\<rparr> w_bound_a))"
proof -
  have c: "class_api w_bound_a Order_cls = Some client_a"
    by (simp add: w_bound_a_simps)
  have r: "sent (snd (Order_retrieve (\<lambda>j. Inr order1) net0 Order_cls ''1'' w_bound_a)) =
       [\<lparr>rq_verb = ''GET'', rq_url = ''https://stage-api.ioka.kz/v2/orders/1'',
         rq_headers = [(''API-KEY'', Str ''key-of-a''), (''Content-Type'', Str ''application/json'')],
         rq_params = None\<rparr>]"
    by (simp add: Order_retrieve_def bound_api_Some[OF c] snd_wrapped get_order_by_id_def
        sent_get request_to_def client_a_simps w_bound_a_simps)
  from facade_uses_bound_client[where x = client_a and w = w_bound_a and c = Order_cls
      and nt = net0 and ?wrap4.0 = "\<lambda>j. Inr order1" and oid = "''1''" and ?wrap5.0 = "\<lambda>j. Inr j"
      and self = order1 and cp = "\<lparr>kw_cp_amount = Passed 50000, kw_cp_reason = Omitted\<rparr>"] c
  have "sends_as client_a w_bound_a
       (snd (Order_retrieve (\<lambda>j. Inr order1) net0 Order_cls ''1'' w_bound_a))"
    and "sends_as client_a w_bound_a
       (snd (Order_capture (\<lambda>j. Inr j) net0 order1
          \<lparr>kw_cp_amount = Passed 50000, kw_cp_reason = Omitted\<rparr> w_bound_a))"
    by blast+
  with c r show ?thesis by blast
qed

subsection \<open>What the debug log shows of the key\<close>

lemma falsy_None: "falsy None w"
  by (simp add: falsy_def)

text \<open>
  Claim C4 says that no log line of a sequence of calls without caller-supplied headers
  shows the cleartext key. The code keeps that for the first call only: on an instance
  as \<^verbatim>\<open>__init__\<close> leaves it, the logged headers hold the \<^verbatim>\<open>SecretStr\<close> object,
  which prints masked. Any call after another one logs headers whose \<^verbatim>\<open>API-KEY\<close>
  entry is the plain string of the key, which the f-string prints in clear.
\<close>

theorem later_request_logs_cleartext_key:
  "(Api_init HttpUrl kw wi = (Inr self, w) \<and> falsy h1 w \<longrightarrow>
      (\<exists>l. debug_log (snd (Api_request nt1 self m1 u1 p1 t1 h1 f1 w)) ! length (debug_log w) =
             LogRequest l
           \<and> map_of (lg_headers l) ''API-KEY'' = Some (SecretStr (api_key self))))
   \<and> (falsy h1 w \<and> falsy h2 (snd (Api_request nt1 self m1 u1 p1 t1 h1 f1 w)) \<longrightarrow>
      (let w' = snd (Api_request nt1 self m1 u1 p1 t1 h1 f1 w);
           w'' = snd (Api_request nt2 self m2 u2 p2 t2 h2 f2 w')
       in \<exists>l. debug_log w'' ! length (debug_log w') = LogRequest l
             \<and> map_of (lg_headers l) ''API-KEY'' = Some (Str (api_key self))))"
proof (intro conjI impI)
  assume a: "Api_init HttpUrl kw wi = (Inr self, w) \<and> falsy h1 w"
  then have "heap w (headers_or h1 self w) =
      [(''API-KEY'', SecretStr (api_key self)), (''Content-Type'', Str ''application/json'')]"
    using Api_init_heap[of HttpUrl kw wi self w] headers_or_falsy[of h1 w self] by simp
  then show "\<exists>l. debug_log (snd (Api_request nt1 self m1 u1 p1 t1 h1 f1 w)) ! length (debug_log w) =
             LogRequest l
           \<and> map_of (lg_headers l) ''API-KEY'' = Some (SecretStr (api_key self))"
    by (simp add: Api_request_log_nth)
next
  assume a: "falsy h1 w \<and> falsy h2 (snd (Api_request nt1 self m1 u1 p1 t1 h1 f1 w))"
  define w' where "w' = snd (Api_request nt1 self m1 u1 p1 t1 h1 f1 w)"
  from a have "heap w' (headers_or h2 self w') =
      AList.update ''API-KEY'' (Str (api_key self)) (heap w (headers self))"
    by (simp add: w'_def headers_or_falsy Api_request_heap)
  then have "\<exists>l. debug_log (snd (Api_request nt2 self m2 u2 p2 t2 h2 f2 w')) ! length (debug_log w') =
      LogRequest l \<and> map_of (lg_headers l) ''API-KEY'' = Some (Str (api_key self))"
    by (simp add: Api_request_log_nth update_conv')
  then show "let w' = snd (Api_request nt1 self m1 u1 p1 t1 h1 f1 w);
           w'' = snd (Api_request nt2 self m2 u2 p2 t2 h2 f2 w')
       in \<exists>l. debug_log w'' ! length (debug_log w') = LogRequest l
             \<and> map_of (lg_headers l) ''API-KEY'' = Some (Str (api_key self))"
    by (simp add: Let_def w'_def)
qed

text \<open>Two \<^verbatim>\<open>get_orders\<close> calls on the first example client, fresh from its construction.\<close>

theorem later_request_logs_cleartext_key_witness:
  "Api_init url0 kw_a w0 = (Inr client_a, w_a) \<and> falsy None w_a
   \<and> debug_log (snd (get_orders net0 client_a w_a)) ! 0 =
       LogRequest \<lparr>lg_verb = ''get'', lg_url = ''https://stage-api.ioka.kz/v2/orders'',
         lg_params = None, lg_params_type = ''json'',
         lg_headers = [(''API-KEY'', SecretStr ''key-of-a''),
                       (''Content-Type'', Str ''application/json'')],
         lg_raise_for_status = True\<rparr>
   \<and> debug_log (snd (get_orders net0 client_a (snd (get_orders net0 client_a w_a)))) ! 2 =
       LogRequest \<lparr>lg_verb = ''get'', lg_url = ''https://stage-api.ioka.kz/v2/orders'',
         lg_params = None, lg_params_type = ''json'',
         lg_headers = [(''API-KEY'', Str ''key-of-a''),
                       (''Content-Type'', Str ''application/json'')],
         lg_raise_for_status = True\<rparr>"
proof -
  define w' where "w' = snd (get_orders net0 client_a w_a)"
  have l0: "length (debug_log w_a) = 0"
    by (simp add: w_a_eq)
  have l1: "length (debug_log w') = 2"
    by (simp add: w'_def get_orders_def Api_request_def requests_request_def Let_def net0_def
        ok200_def raise_for_status_def w_a_eq)
  have h0: "heap w_a 0 = [(''API-KEY'', SecretStr ''key-of-a''),
                       (''Content-Type'', Str ''application/json'')]"
    by (simp add: w_a_eq)
  have h1: "heap w' 0 = [(''API-KEY'', Str ''key-of-a''),
                       (''Content-Type'', Str ''application/json'')]"
    by (simp add: w'_def get_orders_def Api_request_heap headers_or_def client_a_simps h0)
  from later_request_logs_cleartext_key[where HttpUrl = url0 and kw = kw_a and wi = w0
      and self = client_a and w = w_a and ?h1.0 = None and ?h2.0 = None and ?nt1.0 = net0
      and ?m1.0 = "''get''" and ?u1.0 = "''orders''" and ?p1.0 = None and ?t1.0 = "''json''"
      and ?f1.0 = True and ?nt2.0 = net0 and ?m2.0 = "''get''" and ?u2.0 = "''orders''"
      and ?p2.0 = None and ?t2.0 = "''json''" and ?f2.0 = True]
  have "\<exists>l. debug_log (snd (get_orders net0 client_a w')) ! 2 = LogRequest l
          \<and> map_of (lg_headers l) ''API-KEY'' = Some (Str (api_key client_a))"
    by (simp add: falsy_None init_a Let_def get_orders_def[symmetric] w'_def[symmetric] l1)
  moreover have "debug_log w' ! 0 =
       LogRequest \<lparr>lg_verb = ''get'', lg_url = ''https://stage-api.ioka.kz/v2/orders'',
         lg_params = None, lg_params_type = ''json'',
         lg_headers = [(''API-KEY'', SecretStr ''key-of-a''),
                       (''Content-Type'', Str ''application/json'')],
         lg_raise_for_status = True\<rparr>"
    using Api_request_log_nth[of net0 client_a "''get''" "''orders''" None "''json''" None True w_a]
    by (simp add: w'_def get_orders_def l0 headers_or_def client_a_simps h0)
  moreover have "debug_log (snd (get_orders net0 client_a w')) ! 2 =
       LogRequest \<lparr>lg_verb = ''get'', lg_url = ''https://stage-api.ioka.kz/v2/orders'',
         lg_params = None, lg_params_type = ''json'',
         lg_headers = [(''API-KEY'', Str ''key-of-a''),
                       (''Content-Type'', Str ''application/json'')],
         lg_raise_for_status = True\<rparr>"
    using Api_request_log_nth[of net0 client_a "''get''" "''orders''" None "''json''" None True w']
    by (simp add: get_orders_def l1 headers_or_def client_a_simps h1)
  ultimately show ?thesis
    unfolding w'_def[symmetric]
    by (simp add: init_a falsy_None)
qed

subsection \<open>\<^verbatim>\<open>ISODatetime.validate\<close>\<close>













































end
